theory Spec2Isabelle
  imports Complex_Main "HOL-Library.AList"
begin

section \<open>Python values that facial.py works with\<close>

text \<open>
  The program is a webcam front end: \<^verbatim>\<open>EmotionDetector\<close> wraps OpenCV face localisation and
  the DeepFace classifier and keeps two bounded deques, \<^verbatim>\<open>EmotionDetectionApp\<close> owns the
  session flag, the two buttons and the background loop.  The libraries are external; they
  enter the model as the fields of the record \<open>vision\<close>, each a function that either
  raises an instance of Python's \<^verbatim>\<open>Exception\<close> (\<open>Inl\<close>) or returns (\<open>Inr\<close>).
  Console output (\<^verbatim>\<open>print\<close>) and the rendering loop \<^verbatim>\<open>update_frame\<close>, which never
  touches the history, are not part of the model.
\<close>

datatype py_exception = IndexError | KeyError | LibraryError string

text \<open>\<^verbatim>\<open>datetime.now()\<close>: an instant, counted in microseconds.\<close>

type_synonym datetime = nat

text \<open>A face rectangle \<^verbatim>\<open>(x, y, w, h)\<close>.\<close>

type_synonym box = "int \<times> int \<times> int \<times> int"

text \<open>
  Python floats are reals together with the rounding \<open>fl\<close> of the machine: \<^verbatim>\<open>a / b\<close> is
  \<open>fl (a / b)\<close> and \<^verbatim>\<open>a * b\<close> is \<open>fl (a * b)\<close>.  The rounding is a parameter of every
  function that computes with floats.  IEEE double precision rounds to nearest: where the
  exact result neither underflows nor overflows, the relative error is at most the unit
  roundoff, which is what \<open>ieee_rounding\<close> says.  The identity is exact arithmetic.
\<close>

definition unit_roundoff :: real where
  "unit_roundoff = 1 / 2 ^ 53"

definition ieee_rounding :: "(real \<Rightarrow> real) \<Rightarrow> bool" where
  "ieee_rounding fl =
     (\<forall>x. 1 / 2 ^ 1022 \<le> \<bar>x\<bar> \<and> \<bar>x\<bar> \<le> 2 ^ 1023 \<longrightarrow> \<bar>fl x - x\<bar> \<le> unit_roundoff * \<bar>x\<bar>)"

subsection \<open>\<^verbatim>\<open>collections.deque(maxlen=n)\<close>\<close>

text \<open>
  A bounded deque is the list of its items, oldest first.  \<^verbatim>\<open>append\<close> adds on the right
  and, when the deque then holds more than \<open>maxlen\<close> items, drops one on the left.
\<close>

definition deque_append :: "nat \<Rightarrow> 'a list \<Rightarrow> 'a \<Rightarrow> 'a list" where
  "deque_append maxlen xs x =
     (let ys = xs @ [x] in if length ys > maxlen then tl ys else ys)"

subsection \<open>Dictionaries\<close>

text \<open>
  \<^verbatim>\<open>emotion_counts\<close> is built key by key and then iterated, so it is an association list in
  insertion order: \<open>AList.update\<close> overwrites the value of a key that is present and adds a
  new key at the end, as assignment to a Python dict does.  \<^verbatim>\<open>d.get(k, default)\<close>:
\<close>

definition dict_get :: "('k \<times> 'v) list \<Rightarrow> 'k \<Rightarrow> 'v \<Rightarrow> 'v" where
  "dict_get d k dflt = (case map_of d k of None \<Rightarrow> dflt | Some v \<Rightarrow> v)"

section \<open>EmotionDetector\<close>

record EmotionDetector =
  emotion_history :: "string list"
  emotion_timestamps :: "datetime list"

text \<open>\<^verbatim>\<open>__init__\<close>: both deques are created empty, with \<^verbatim>\<open>maxlen=100\<close>.\<close>

definition EmotionDetector_init :: EmotionDetector where
  "EmotionDetector_init = \<lparr>emotion_history = [], emotion_timestamps = []\<rparr>"

subsection \<open>\<^verbatim>\<open>detect_emotion\<close>\<close>

text \<open>
  One element of the list \<^verbatim>\<open>DeepFace.analyze\<close> returns is a dict; the program reads two of
  its keys.  \<open>dominant_emotion\<close> is \<^verbatim>\<open>result.get('dominant_emotion', None)\<close> (\<open>None\<close> when
  the key is missing or holds \<^verbatim>\<open>None\<close>); \<open>emotion\<close> is the per-label score dict under
  \<^verbatim>\<open>result['emotion']\<close>, \<open>None\<close> when the key is missing (the subscript raises
  \<^verbatim>\<open>KeyError\<close>).  The score dict is keyed by label strings.
\<close>

record analysis =
  dominant_emotion :: "string option"
  emotion :: "(string \<rightharpoonup> real) option"

record 'f vision =
  cvtColor :: "'f \<Rightarrow> py_exception + 'f"
  detectMultiScale :: "'f \<Rightarrow> py_exception + box list"
  crop :: "'f \<Rightarrow> box \<Rightarrow> py_exception + 'f"
  analyze :: "'f \<Rightarrow> py_exception + analysis list"

text \<open>The triple \<^verbatim>\<open>detect_emotion\<close> returns: face box, label, confidence.\<close>

type_synonym detection = "box option \<times> string option \<times> real"

text \<open>\<^verbatim>\<open>result['emotion'].get(emotion_label, 0)\<close>, where the label may be \<^verbatim>\<open>None\<close>.\<close>

definition score_get :: "(string \<rightharpoonup> real) \<Rightarrow> string option \<Rightarrow> real \<Rightarrow> real" where
  "score_get scores emotion_label dflt =
     (case emotion_label of
        None \<Rightarrow> dflt
      | Some l \<Rightarrow> (case scores l of None \<Rightarrow> dflt | Some s \<Rightarrow> s))"

text \<open>The body of the \<^verbatim>\<open>try\<close> block, lines 19 to 34.\<close>

definition detect_emotion_try :: "'f vision \<Rightarrow> 'f \<Rightarrow> py_exception + detection" where
  "detect_emotion_try cv frame =
     (case cvtColor cv frame of
        Inl e \<Rightarrow> Inl e
      | Inr gray \<Rightarrow>
     (case detectMultiScale cv gray of
        Inl e \<Rightarrow> Inl e
      | Inr faces \<Rightarrow>
     (case faces of
        [] \<Rightarrow> Inr (None, None, 0)
      | face # _ \<Rightarrow>
     (case crop cv frame face of
        Inl e \<Rightarrow> Inl e
      | Inr face_img \<Rightarrow>
     (case analyze cv face_img of
        Inl e \<Rightarrow> Inl e
      | Inr results \<Rightarrow>
     (case results of
        [] \<Rightarrow> Inl IndexError
      | result # _ \<Rightarrow>
     (let emotion_label = dominant_emotion result in
      case emotion result of
        None \<Rightarrow> Inl KeyError
      | Some scores \<Rightarrow> Inr (Some face, emotion_label, score_get scores emotion_label 0))))))))"

text \<open>
  The whole method: \<^verbatim>\<open>except Exception\<close> turns whatever the body raised into the
  "nothing detected" triple.
\<close>

definition detect_emotion :: "'f vision \<Rightarrow> 'f \<Rightarrow> detection" where
  "detect_emotion cv frame =
     (case detect_emotion_try cv frame of
        Inl e \<Rightarrow> (None, None, 0)
      | Inr r \<Rightarrow> r)"

subsection \<open>\<^verbatim>\<open>get_emotion_stats\<close> and \<^verbatim>\<open>reset_emotion_history\<close>\<close>

text \<open>The counting loop, lines 43 to 45.\<close>

fun count_emotions :: "(string \<times> int) list \<Rightarrow> string list \<Rightarrow> (string \<times> int) list" where
  "count_emotions emotion_counts [] = emotion_counts"
| "count_emotions emotion_counts (e # rest) =
     count_emotions (AList.update e (dict_get emotion_counts e 0 + 1) emotion_counts) rest"

text \<open>
  \<^verbatim>\<open>count / total * 100\<close>: a true division of two ints, then a float product.  The
  divisor is the length of a history that the first line found non-empty.
\<close>

definition percentage :: "(real \<Rightarrow> real) \<Rightarrow> int \<Rightarrow> int \<Rightarrow> real" where
  "percentage fl cnt tot = fl (fl (real_of_int cnt / real_of_int tot) * 100)"

definition get_emotion_stats :: "(real \<Rightarrow> real) \<Rightarrow> EmotionDetector \<Rightarrow> (string \<times> real) list" where
  "get_emotion_stats fl d =
     (if emotion_history d = [] then []
      else
        (let emotion_counts = count_emotions [] (emotion_history d);
             tot = int (length (emotion_history d))
         in map (\<lambda>(e, cnt). (e, percentage fl cnt tot)) emotion_counts))"

definition reset_emotion_history :: "EmotionDetector \<Rightarrow> EmotionDetector" where
  "reset_emotion_history d = d\<lparr>emotion_history := [], emotion_timestamps := []\<rparr>"

section \<open>EmotionDetectionApp\<close>

text \<open>
  The fields of the application that the session logic reads or writes: the detector, the
  flag, the text of the statistics label, and the number of \<^verbatim>\<open>run_detection\<close> threads
  started so far.
\<close>

record EmotionDetectionApp =
  detector :: EmotionDetector
  detection_active :: bool
  emotion_stats_label :: string
  threads_started :: nat

definition EmotionDetectionApp_init :: EmotionDetectionApp where
  "EmotionDetectionApp_init =
     \<lparr>detector = EmotionDetector_init,
      detection_active = False,
      emotion_stats_label = ''Emotion Statistics will be displayed here.'',
      threads_started = 0\<rparr>"

definition start_detection :: "EmotionDetectionApp \<Rightarrow> EmotionDetectionApp" where
  "start_detection app =
     (if \<not> detection_active app
      then app\<lparr>detector := reset_emotion_history (detector app),
               detection_active := True,
               threads_started := Suc (threads_started app)\<rparr>
      else app)"

text \<open>\<^verbatim>\<open>"\n".join(...)\<close> and the text written on the label, lines 95 and 96.\<close>

fun join :: "string \<Rightarrow> string list \<Rightarrow> string" where
  "join sep [] = []"
| "join sep [s] = s"
| "join sep (s # t # ss) = s @ sep @ join sep (t # ss)"

definition stats_text :: "(real \<Rightarrow> string) \<Rightarrow> (string \<times> real) list \<Rightarrow> string" where
  "stats_text format_2f stats =
     ''Emotion statistics:'' @ [CHR 0x0A] @
     join [CHR 0x0A] (map (\<lambda>(e, p). e @ '': '' @ format_2f p @ ''%'') stats)"

text \<open>
  \<^verbatim>\<open>stop_detection\<close> has no \<^verbatim>\<open>return\<close> statement: the call evaluates to \<^verbatim>\<open>None\<close>, the
  first component of the result; the second is the application afterwards.  A returned
  dict would be \<open>Some\<close> of it.  \<open>format_2f\<close> is Python's \<^verbatim>\<open>format(p, '.2f')\<close>.
\<close>

definition stop_detection ::
  "(real \<Rightarrow> real) \<Rightarrow> (real \<Rightarrow> string) \<Rightarrow> EmotionDetectionApp
     \<Rightarrow> (string \<times> real) list option \<times> EmotionDetectionApp" where
  "stop_detection fl format_2f app =
     (if detection_active app
      then
        (let app1 = app\<lparr>detection_active := False\<rparr>;
             stats = get_emotion_stats fl (detector app1)
         in if stats \<noteq> []
            then (None, app1\<lparr>emotion_stats_label := stats_text format_2f stats\<rparr>)
            else (None, app1))
      else (None, app))"

text \<open>
  \<^verbatim>\<open>run_detection\<close>, the loop of the background thread.  Each pass consumes what
  \<^verbatim>\<open>cap.read()\<close> returned and the clock of that moment; the list holds the passes the
  thread gets to make.  The two appends of lines 113 and 114 are \<open>record_observation\<close>.
  \<open>run_detection\<close> is the loop with nothing happening in between: every pass runs from
  its test of the flag to its appends on the application as the pass before left it.
\<close>

type_synonym 'f capture = "(bool \<times> 'f) \<times> datetime"

definition record_observation :: "EmotionDetector \<Rightarrow> string \<Rightarrow> datetime \<Rightarrow> EmotionDetector" where
  "record_observation d e now =
     d\<lparr>emotion_history := deque_append 100 (emotion_history d) e,
       emotion_timestamps := deque_append 100 (emotion_timestamps d) now\<rparr>"

fun run_detection :: "'f vision \<Rightarrow> 'f capture list \<Rightarrow> EmotionDetectionApp \<Rightarrow> EmotionDetectionApp" where
  "run_detection cv [] app = app"
| "run_detection cv (((ret, frame), now) # rest) app =
     (if detection_active app
      then
        (if \<not> ret then app
         else
           (case detect_emotion cv frame of
              (face_box, emotion_label, confidence) \<Rightarrow>
                run_detection cv rest
                  (case emotion_label of
                     None \<Rightarrow> app
                   | Some e \<Rightarrow>
                       if e \<noteq> []
                       then app\<lparr>detector := record_observation (detector app) e now\<rparr>
                       else app)))
      else app)"

text \<open>
  The buttons run on another thread, so a click can fall inside a pass.  The flag is read
  once, in the loop condition of line 99; the appends of lines 113 and 114 come after
  \<^verbatim>\<open>detect_emotion\<close> has returned and do not read it again.  A pass is therefore two
  steps.  \<open>pass_head\<close> is lines 99 to 110: it ends the loop (\<open>None\<close>) when the flag is
  not set or the read failed, and otherwise hands the local variable \<^verbatim>\<open>emotion\<close> on.
  \<open>pass_tail\<close> is lines 112 to 114, on the application as it is by then.
\<close>

definition pass_head :: "'f vision \<Rightarrow> bool \<times> 'f \<Rightarrow> EmotionDetectionApp \<Rightarrow> string option option" where
  "pass_head cv rd app =
     (if detection_active app
      then
        (case rd of
           (ret, frame) \<Rightarrow>
             if \<not> ret then None
             else
               (case detect_emotion cv frame of
                  (face_box, emotion_label, confidence) \<Rightarrow> Some emotion_label))
      else None)"

definition pass_tail :: "string option \<Rightarrow> datetime \<Rightarrow> EmotionDetectionApp \<Rightarrow> EmotionDetectionApp" where
  "pass_tail emotion_label now app =
     (case emotion_label of
        None \<Rightarrow> app
      | Some e \<Rightarrow>
          if e \<noteq> []
          then app\<lparr>detector := record_observation (detector app) e now\<rparr>
          else app)"

subsection \<open>Sessions as event sequences\<close>

text \<open>\<^verbatim>\<open>on_closing\<close>: the window is closed; of the fields above only the flag changes.\<close>

definition on_closing :: "EmotionDetectionApp \<Rightarrow> EmotionDetectionApp" where
  "on_closing app = app\<lparr>detection_active := False\<rparr>"

text \<open>
  What can happen to an application: a click on either button, the background thread
  making some passes of its loop, or the window being closed.
\<close>

datatype 'f event = Start | Stop | Run "'f capture list" | Close

fun apply_event ::
  "'f vision \<Rightarrow> (real \<Rightarrow> real) \<Rightarrow> (real \<Rightarrow> string) \<Rightarrow> 'f event
     \<Rightarrow> EmotionDetectionApp \<Rightarrow> EmotionDetectionApp" where
  "apply_event cv fl format_2f Start app = start_detection app"
| "apply_event cv fl format_2f Stop app = snd (stop_detection fl format_2f app)"
| "apply_event cv fl format_2f (Run captures) app = run_detection cv captures app"
| "apply_event cv fl format_2f Close app = on_closing app"

definition exec ::
  "'f vision \<Rightarrow> (real \<Rightarrow> real) \<Rightarrow> (real \<Rightarrow> string) \<Rightarrow> 'f event list
     \<Rightarrow> EmotionDetectionApp \<Rightarrow> EmotionDetectionApp" where
  "exec cv fl format_2f events app = fold (apply_event cv fl format_2f) events app"

text \<open>
  The observations a run of the loop makes, in closed form: the passes up to the first
  failed read, and of those the ones on which \<^verbatim>\<open>detect_emotion\<close> returned a label that
  Python takes for true (neither \<^verbatim>\<open>None\<close> nor the empty string).
\<close>

definition observation :: "'f vision \<Rightarrow> 'f capture \<Rightarrow> (string \<times> datetime) option" where
  "observation cv c =
     (case fst (snd (detect_emotion cv (snd (fst c)))) of
        None \<Rightarrow> None
      | Some e \<Rightarrow> if e \<noteq> [] then Some (e, snd c) else None)"

definition observations :: "'f vision \<Rightarrow> 'f capture list \<Rightarrow> (string \<times> datetime) list" where
  "observations cv captures =
     List.map_filter (observation cv) (takeWhile (\<lambda>c. fst (fst c)) captures)"

text \<open>Recording a list of observations one after the other.\<close>

definition record_all :: "(string \<times> datetime) list \<Rightarrow> EmotionDetector \<Rightarrow> EmotionDetector" where
  "record_all obs d = fold (\<lambda>(e, now) d. record_observation d e now) obs d"

subsection \<open>Passes interleaved with clicks\<close>

text \<open>
  The application together with the passes in flight: for each pass that has returned
  from \<^verbatim>\<open>detect_emotion\<close> and not yet reached line 112, its local variable \<^verbatim>\<open>emotion\<close>.
  An action is a click, the closing of the window, the head of a pass, or the tail of the
  pass in flight at a given position, with the clock it reads.
\<close>

record threaded =
  application :: EmotionDetectionApp
  in_flight :: "string option list"

definition threaded_init :: threaded where
  "threaded_init = \<lparr>application = EmotionDetectionApp_init, in_flight = []\<rparr>"

datatype 'f action =
    Press_start
  | Press_stop
  | Close_window
  | Loop_head "bool \<times> 'f"
  | Loop_tail nat datetime

fun act ::
  "'f vision \<Rightarrow> (real \<Rightarrow> real) \<Rightarrow> (real \<Rightarrow> string) \<Rightarrow> 'f action \<Rightarrow> threaded \<Rightarrow> threaded" where
  "act cv fl format_2f Press_start s = s\<lparr>application := start_detection (application s)\<rparr>"
| "act cv fl format_2f Press_stop s =
     s\<lparr>application := snd (stop_detection fl format_2f (application s))\<rparr>"
| "act cv fl format_2f Close_window s = s\<lparr>application := on_closing (application s)\<rparr>"
| "act cv fl format_2f (Loop_head rd) s =
     (case pass_head cv rd (application s) of
        None \<Rightarrow> s
      | Some emotion_label \<Rightarrow> s\<lparr>in_flight := in_flight s @ [emotion_label]\<rparr>)"
| "act cv fl format_2f (Loop_tail i now) s =
     (if i < length (in_flight s)
      then s\<lparr>application := pass_tail (in_flight s ! i) now (application s),
             in_flight := take i (in_flight s) @ drop (Suc i) (in_flight s)\<rparr>
      else s)"

definition run_actions ::
  "'f vision \<Rightarrow> (real \<Rightarrow> real) \<Rightarrow> (real \<Rightarrow> string) \<Rightarrow> 'f action list \<Rightarrow> threaded \<Rightarrow> threaded" where
  "run_actions cv fl format_2f actions s = fold (act cv fl format_2f) actions s"

fun loop_action :: "'f action \<Rightarrow> bool" where
  "loop_action (Loop_head rd) = True"
| "loop_action (Loop_tail i now) = True"
| "loop_action Press_start = False"
| "loop_action Press_stop = False"
| "loop_action Close_window = False"

subsection \<open>Concrete libraries and states\<close>

text \<open>
  A stand-in for the libraries on which runs can be computed: a frame is the label the
  classifier reads off it, and every frame shows one face.
\<close>

definition stub_vision :: "string vision" where
  "stub_vision =
     \<lparr>cvtColor = Inr,
      detectMultiScale = (\<lambda>gray. Inr [(0, 0, 48, 48)]),
      crop = (\<lambda>frame face. Inr frame),
      analyze = (\<lambda>face_img. Inr [\<lparr>dominant_emotion = Some face_img, emotion = Some [face_img \<mapsto> 99]\<rparr>])\<rparr>"

definition full_app :: EmotionDetectionApp where
  "full_app =
     \<lparr>detector = \<lparr>emotion_history = replicate 100 ''sad'', emotion_timestamps = replicate 100 0\<rparr>,
      detection_active = True,
      emotion_stats_label = [],
      threads_started = 1\<rparr>"

text \<open>
  105 successful reads, at the instants 1 to 105; the label seen at instant \<open>i\<close> is the
  letter \<open>x\<close> written \<open>i\<close> times.
\<close>

definition numbered_capture :: "nat \<Rightarrow> string capture" where
  "numbered_capture i = ((True, replicate i CHR ''x''), i)"

definition captures_105 :: "string capture list" where
  "captures_105 = map numbered_capture [1..<106]"

definition three_labels :: EmotionDetector where
  "three_labels = \<lparr>emotion_history = [''happy'', ''happy'', ''sad''], emotion_timestamps = [1, 2, 3]\<rparr>"

text \<open>
  Variations of it: two faces in the frame, a classifier that names a label its score dict
  does not hold, and a classifier that names no label.
\<close>

definition two_faces :: "string vision" where
  "two_faces = stub_vision\<lparr>detectMultiScale := \<lambda>gray. Inr [(5, 6, 30, 30), (100, 20, 200, 200)]\<rparr>"

definition unscored :: "string vision" where
  "unscored =
     stub_vision\<lparr>analyze := \<lambda>face_img. Inr [\<lparr>dominant_emotion = Some face_img, emotion = Some Map.empty\<rparr>]\<rparr>"

definition unlabelled :: "string vision" where
  "unlabelled =
     stub_vision\<lparr>analyze := \<lambda>face_img. Inr [\<lparr>dominant_emotion = None, emotion = Some [face_img \<mapsto> 99]\<rparr>]\<rparr>"

text \<open>
  A formatter for the few percentages the concrete runs print, and a session in progress: the
  application after a click on Start and one pass of the loop that saw a sad face.
\<close>

definition stub_format_2f :: "real \<Rightarrow> string" where
  "stub_format_2f p = (if p = 100 then ''100.00'' else if p = 50 then ''50.00'' else ''?'')"

definition session_in_progress :: EmotionDetectionApp where
  "session_in_progress =
     run_detection stub_vision [((True, ''sad''), 1)] (start_detection EmotionDetectionApp_init)"

text \<open>A click on Stop that falls between the head and the tail of the first pass.\<close>

definition stopped_mid_pass :: threaded where
  "stopped_mid_pass =
     run_actions stub_vision id stub_format_2f
       [Press_start, Loop_head (True, ''sad''), Press_stop] threaded_init"

section \<open>Lemmas about the deques and the loop\<close>

lemma deque_append_length:
  "length xs \<le> n \<Longrightarrow> length (deque_append n xs x) = min (Suc (length xs)) n"
  by (auto simp: deque_append_def Let_def)

lemma record_all_Nil: "record_all [] d = d"
  by (simp add: record_all_def)

lemma record_all_Cons: "record_all ((e, now) # obs) d = record_all obs (record_observation d e now)"
  by (simp add: record_all_def)

lemma fold_deque_append:
  "length xs \<le> n \<Longrightarrow>
   fold (\<lambda>y ys. deque_append n ys y) zs xs = drop (length xs + length zs - n) (xs @ zs)"
proof (induction zs arbitrary: xs)
  case Nil
  then show ?case by simp
next
  case (Cons z zs)
  have len: "length (deque_append n xs z) \<le> n"
    using Cons.prems by (simp add: deque_append_length)
  have "fold (\<lambda>y ys. deque_append n ys y) (z # zs) xs =
        fold (\<lambda>y ys. deque_append n ys y) zs (deque_append n xs z)"
    by simp
  also have "\<dots> = drop (length (deque_append n xs z) + length zs - n) (deque_append n xs z @ zs)"
    by (rule Cons.IH [OF len])
  also have "\<dots> = drop (length xs + length (z # zs) - n) (xs @ z # zs)"
  proof (cases "Suc (length xs) \<le> n")
    case True
    then show ?thesis by (simp add: deque_append_def Let_def)
  next
    case False
    with Cons.prems have eq: "length xs = n" by simp
    then have "deque_append n xs z = tl (xs @ [z])"
      by (simp add: deque_append_def Let_def)
    then show ?thesis using eq
      by (cases xs) (simp_all add: drop_Suc)
  qed
  finally show ?case .
qed

lemma history_record_all:
  "emotion_history (record_all obs d) =
     fold (\<lambda>y ys. deque_append 100 ys y) (map fst obs) (emotion_history d)"
  by (induction obs arbitrary: d) (auto simp: record_all_def record_observation_def)

lemma observations_Nil: "observations cv [] = []"
  by (simp add: observations_def List.map_filter_simps)

lemma observations_Cons:
  "observations cv (c # cs) =
     (if fst (fst c)
      then (case observation cv c of None \<Rightarrow> observations cv cs | Some ob \<Rightarrow> ob # observations cv cs)
      else [])"
  by (simp add: observations_def List.map_filter_simps split: option.splits)

lemma run_detection_inactive: "\<not> detection_active app \<Longrightarrow> run_detection cv captures app = app"
  by (cases captures) auto

lemma run_detection_active:
  "detection_active app \<Longrightarrow>
   run_detection cv captures app =
     app\<lparr>detector := record_all (observations cv captures) (detector app)\<rparr>"
proof (induction captures arbitrary: app)
  case Nil
  then show ?case by (simp add: observations_Nil record_all_Nil)
next
  case (Cons c cs)
  obtain ret frame now where c: "c = ((ret, frame), now)"
    by (metis surj_pair)
  obtain face_box emotion_label confidence
    where det: "detect_emotion cv frame = (face_box, emotion_label, confidence)"
    by (metis surj_pair)
  show ?case
  proof (cases ret)
    case False
    with Cons.prems c show ?thesis
      by (simp add: observations_Cons record_all_Nil)
  next
    case True
    show ?thesis
    proof (cases "emotion_label = None \<or> emotion_label = Some []")
      case True
      then have "observation cv c = None"
        using c det by (auto simp: observation_def)
      moreover have "run_detection cv (c # cs) app = run_detection cv cs app"
        using True \<open>ret\<close> c det Cons.prems by auto
      ultimately show ?thesis
        using Cons.IH [OF Cons.prems] \<open>ret\<close> c by (simp add: observations_Cons)
    next
      case False
      then obtain e where e: "emotion_label = Some e" "e \<noteq> []" by auto
      let ?app = "app\<lparr>detector := record_observation (detector app) e now\<rparr>"
      have "observation cv c = Some (e, now)"
        using c det e by (simp add: observation_def)
      moreover have "run_detection cv (c # cs) app = run_detection cv cs ?app"
        using e \<open>ret\<close> c det Cons.prems by simp
      moreover have "detection_active ?app" using Cons.prems by simp
      ultimately show ?thesis
        using Cons.IH [of ?app] \<open>ret\<close> c
        by (simp add: observations_Cons record_all_Cons)
    qed
  qed
qed

lemma history_run_detection:
  assumes "detection_active app" and "length (emotion_history (detector app)) \<le> 100"
  shows "emotion_history (detector (run_detection cv captures app)) =
           drop (length (emotion_history (detector app)) + length (observations cv captures) - 100)
             (emotion_history (detector app) @ map fst (observations cv captures))"
  using assms by (simp add: run_detection_active history_record_all fold_deque_append)

lemma start_detection_active: "detection_active app \<Longrightarrow> start_detection app = app"
  by (simp add: start_detection_def)

lemma detector_stop_detection: "detector (snd (stop_detection fl format_2f app)) = detector app"
  by (simp add: stop_detection_def Let_def)

lemma history_bound_event:
  assumes "length (emotion_history (detector app)) \<le> 100"
  shows "length (emotion_history (detector (apply_event cv fl format_2f ev app))) \<le> 100"
proof (cases ev)
  case Start
  then show ?thesis using assms
    by (simp add: start_detection_def reset_emotion_history_def)
next
  case Stop
  then show ?thesis using assms by (simp add: detector_stop_detection)
next
  case (Run captures)
  show ?thesis
  proof (cases "detection_active app")
    case True
    then show ?thesis using assms Run by (simp add: history_run_detection)
  next
    case False
    then show ?thesis using assms Run by (simp add: run_detection_inactive)
  qed
next
  case Close
  then show ?thesis using assms by (simp add: on_closing_def)
qed

lemma history_bound_exec:
  "length (emotion_history (detector app)) \<le> 100 \<Longrightarrow>
   length (emotion_history (detector (exec cv fl format_2f events app))) \<le> 100"
  unfolding exec_def
  by (induction events arbitrary: app) (simp_all add: history_bound_event)

lemma detect_stub: "detect_emotion stub_vision l = (Some (0, 0, 48, 48), Some l, 99)"
  by (simp add: detect_emotion_def detect_emotion_try_def stub_vision_def score_get_def)

lemma observation_stub: "observation stub_vision ((r, l), t) = (if l \<noteq> [] then Some (l, t) else None)"
  by (simp add: observation_def detect_stub)

subsection \<open>The counting loop and the percentages\<close>

lemma count_emotions_keys:
  "fst ` set (count_emotions d h) = fst ` set d \<union> set h"
  by (induction h arbitrary: d) (auto simp: dom_update)

lemma count_emotions_distinct:
  "distinct (map fst d) \<Longrightarrow> distinct (map fst (count_emotions d h))"
  by (induction h arbitrary: d) (simp_all add: distinct_update)

lemma count_emotions_get:
  "dict_get (count_emotions d h) k 0 = dict_get d k 0 + int (count_list h k)"
  by (induction h arbitrary: d) (simp_all add: dict_get_def update_conv')

lemma count_emotions_map_of:
  "map_of (count_emotions [] h) k =
     (if k \<in> set h then Some (int (count_list h k)) else None)"
proof (cases "k \<in> set h")
  case True
  then have "k \<in> fst ` set (count_emotions [] h)"
    by (simp add: count_emotions_keys)
  then obtain v where v: "map_of (count_emotions [] h) k = Some v"
    by (metis domD dom_map_of_conv_image_fst)
  with count_emotions_get [of "[]" h k] have "v = int (count_list h k)"
    by (simp add: dict_get_def)
  with v True show ?thesis by simp
next
  case False
  then have "k \<notin> fst ` set (count_emotions [] h)"
    by (simp add: count_emotions_keys)
  then have "map_of (count_emotions [] h) k = None"
    by (simp add: map_of_eq_None_iff)
  with False show ?thesis by simp
qed

lemma count_emotions_closed_form:
  "count_emotions [] h =
     map (\<lambda>k. (k, int (count_list h k))) (map fst (count_emotions [] h))"
proof -
  have dist: "distinct (map fst (count_emotions [] h))"
    by (simp add: count_emotions_distinct)
  have "\<And>p. p \<in> set (count_emotions [] h) \<Longrightarrow> p = (fst p, int (count_list h (fst p)))"
  proof -
    fix p assume p: "p \<in> set (count_emotions [] h)"
    then have "map_of (count_emotions [] h) (fst p) = Some (snd p)"
      using dist by simp
    moreover have "fst p \<in> set h"
      using p count_emotions_keys [of "[]" h] by force
    ultimately have "snd p = int (count_list h (fst p))"
      by (simp add: count_emotions_map_of)
    then show "p = (fst p, int (count_list h (fst p)))"
      by (simp add: prod_eq_iff)
  qed
  then have "map (\<lambda>p. (fst p, int (count_list h (fst p)))) (count_emotions [] h) = count_emotions [] h"
    by (intro map_idI) simp
  then show ?thesis by (simp add: comp_def)
qed

lemma get_emotion_stats_empty: "emotion_history d = [] \<Longrightarrow> get_emotion_stats fl d = []"
  by (simp add: get_emotion_stats_def)

lemma get_emotion_stats_closed_form:
  assumes "emotion_history d \<noteq> []"
  shows "get_emotion_stats fl d =
     map (\<lambda>k. (k, percentage fl (int (count_list (emotion_history d) k))
                     (int (length (emotion_history d)))))
       (map fst (count_emotions [] (emotion_history d)))"
proof -
  let ?h = "emotion_history d"
  have "get_emotion_stats fl d =
      map (\<lambda>(e, cnt). (e, percentage fl cnt (int (length ?h)))) (count_emotions [] ?h)"
    using assms by (simp add: get_emotion_stats_def Let_def)
  also have "\<dots> = map (\<lambda>(e, cnt). (e, percentage fl cnt (int (length ?h))))
      (map (\<lambda>k. (k, int (count_list ?h k))) (map fst (count_emotions [] ?h)))"
    using count_emotions_closed_form [of ?h] by simp
  finally show ?thesis by (simp add: comp_def)
qed

lemma get_emotion_stats_keys:
  "emotion_history d \<noteq> [] \<Longrightarrow>
   map fst (get_emotion_stats fl d) = map fst (count_emotions [] (emotion_history d))"
  by (simp add: get_emotion_stats_closed_form comp_def)

lemma get_emotion_stats_distinct: "distinct (map fst (get_emotion_stats fl d))"
  by (cases "emotion_history d = []")
    (simp_all add: get_emotion_stats_empty get_emotion_stats_keys count_emotions_distinct)

lemma get_emotion_stats_key_set: "fst ` set (get_emotion_stats fl d) = set (emotion_history d)"
proof (cases "emotion_history d = []")
  case True
  then show ?thesis by (simp add: get_emotion_stats_empty)
next
  case False
  from arg_cong [OF get_emotion_stats_keys [OF False], of set fl]
  show ?thesis by (simp add: count_emotions_keys)
qed

lemma get_emotion_stats_map_of:
  "map_of (get_emotion_stats fl d) k =
     (if k \<in> set (emotion_history d)
      then Some (percentage fl (int (count_list (emotion_history d) k))
                   (int (length (emotion_history d))))
      else None)"
proof (cases "k \<in> set (emotion_history d)")
  case False
  then have "k \<notin> fst ` set (get_emotion_stats fl d)"
    by (simp add: get_emotion_stats_key_set)
  then show ?thesis using False by (simp add: map_of_eq_None_iff)
next
  case True
  then have ne: "emotion_history d \<noteq> []" by auto
  have "k \<in> set (map fst (count_emotions [] (emotion_history d)))"
    using True count_emotions_keys [of "[]" "emotion_history d"] by simp
  then show ?thesis using True
    unfolding get_emotion_stats_closed_form [OF ne]
    by (simp add: map_of_map_restrict restrict_map_def del: map_map)
qed

lemma get_emotion_stats_sum:
  "sum_list (map snd (get_emotion_stats fl d)) =
     (\<Sum>k\<in>set (emotion_history d).
        percentage fl (int (count_list (emotion_history d) k)) (int (length (emotion_history d))))"
proof (cases "emotion_history d = []")
  case True
  then show ?thesis by (simp add: get_emotion_stats_empty)
next
  case False
  let ?ks = "map fst (count_emotions [] (emotion_history d))"
  have dist: "distinct ?ks" by (simp add: count_emotions_distinct)
  have set: "set ?ks = set (emotion_history d)"
    using count_emotions_keys [of "[]" "emotion_history d"] by simp
  have "sum_list (map snd (get_emotion_stats fl d)) =
      sum_list (map (\<lambda>k. percentage fl (int (count_list (emotion_history d) k))
                       (int (length (emotion_history d)))) ?ks)"
    unfolding get_emotion_stats_closed_form [OF False] by (simp add: comp_def)
  also have "\<dots> = (\<Sum>k\<in>set ?ks. percentage fl (int (count_list (emotion_history d) k))
                       (int (length (emotion_history d))))"
    using dist by (rule sum_list_distinct_conv_sum_set)
  finally show ?thesis by (simp only: set)
qed

lemma exact_percentages_sum:
  assumes "h \<noteq> []"
  shows "(\<Sum>k\<in>set h. real (count_list h k) / real (length h) * 100) = 100"
proof -
  have "(\<Sum>k\<in>set h. real (count_list h k) / real (length h) * 100) =
      real (\<Sum>k\<in>set h. count_list h k) / real (length h) * 100"
    by (simp add: sum_divide_distrib sum_distrib_right)
  also have "(\<Sum>k\<in>set h. count_list h k) = length h"
    by (rule sum_count_set) simp_all
  finally show ?thesis using assms by simp
qed

lemma unit_roundoff_bounds: "0 \<le> unit_roundoff" "unit_roundoff \<le> 1"
  by (simp_all add: unit_roundoff_def)

lemma ieee_roundingD:
  "ieee_rounding fl \<Longrightarrow> 1 / 100 \<le> x \<Longrightarrow> x \<le> 200 \<Longrightarrow> \<bar>fl x - x\<bar> \<le> unit_roundoff * x"
proof -
  assume fl: "ieee_rounding fl" and lo: "1 / 100 \<le> x" and hi: "x \<le> 200"
  have "(1::real) / 2 ^ 1022 \<le> 1 / 100" by simp
  with lo have "1 / 2 ^ 1022 \<le> \<bar>x\<bar>" by linarith
  moreover have "(200::real) \<le> 2 ^ 1023" by simp
  with hi lo have "\<bar>x\<bar> \<le> 2 ^ 1023" by linarith
  ultimately have "\<bar>fl x - x\<bar> \<le> unit_roundoff * \<bar>x\<bar>"
    using fl unfolding ieee_rounding_def by blast
  with lo show ?thesis by simp
qed

lemma percentage_rounding:
  assumes fl: "ieee_rounding fl" and lo: "1 / 100 \<le> a" and hi: "a \<le> 1"
  shows "\<bar>fl (fl a * 100) - a * 100\<bar> \<le> 3 * unit_roundoff * (a * 100)"
proof -
  let ?u = unit_roundoff
  have u0: "0 \<le> ?u" and u1: "?u \<le> 1" by (rule unit_roundoff_bounds)+
  have uh: "?u \<le> 1 / 2" by (simp add: unit_roundoff_def)
  have a0: "0 \<le> a" using lo by simp
  have h1: "\<bar>fl a - a\<bar> \<le> ?u * a"
    using fl lo hi by (intro ieee_roundingD) simp_all
  have ua: "0 \<le> ?u * a" using u0 a0 by simp
  have uua: "?u * (?u * a) \<le> ?u * a"
    using mult_right_mono [OF u1 ua] by simp
  have ua_half: "?u * a \<le> a / 2"
    using mult_right_mono [OF uh a0] by simp
  have ua_one: "?u * a \<le> 1"
    using ua_half hi by linarith
  have lo1: "1 / 100 \<le> fl a * 100" using h1 ua_half lo by linarith
  have hi1: "fl a * 100 \<le> 200" using h1 ua_one hi by linarith
  have "fl a \<le> a + ?u * a"
    using h1 by linarith
  then have x1: "fl a * 100 \<le> (a + ?u * a) * 100"
    by simp
  have h2: "\<bar>fl (fl a * 100) - fl a * 100\<bar> \<le> ?u * (fl a * 100)"
    using fl lo1 hi1 by (rule ieee_roundingD)
  have "?u * (fl a * 100) \<le> ?u * ((a + ?u * a) * 100)"
    by (rule mult_left_mono [OF x1 u0])
  also have "\<dots> = (?u * a + ?u * (?u * a)) * 100"
    by (simp add: algebra_simps)
  finally have h3: "\<bar>fl (fl a * 100) - fl a * 100\<bar> \<le> (?u * a + ?u * (?u * a)) * 100"
    using h2 by linarith
  have "fl (fl a * 100) - a * 100 = (fl (fl a * 100) - fl a * 100) + (fl a - a) * 100"
    by (simp add: algebra_simps)
  then have "\<bar>fl (fl a * 100) - a * 100\<bar> \<le> \<bar>fl (fl a * 100) - fl a * 100\<bar> + \<bar>(fl a - a) * 100\<bar>"
    by (simp only: abs_triangle_ineq)
  also have "\<bar>(fl a - a) * 100\<bar> = \<bar>fl a - a\<bar> * 100"
    by (simp only: abs_mult abs_numeral)
  finally have "\<bar>fl (fl a * 100) - a * 100\<bar> \<le> \<bar>fl (fl a * 100) - fl a * 100\<bar> + \<bar>fl a - a\<bar> * 100" .
  also have "\<dots> \<le> (?u * a + ?u * (?u * a)) * 100 + (?u * a) * 100"
    by (intro add_mono mult_right_mono h3 h1) simp
  also have "\<dots> \<le> 3 * ?u * (a * 100)"
    using uua by (simp add: algebra_simps)
  finally show ?thesis .
qed

lemma share_bounds:
  assumes "k \<in> set h" and "length h \<le> 100"
  shows "1 / 100 \<le> real (count_list h k) / real (length h)"
    and "real (count_list h k) / real (length h) \<le> 1"
proof -
  have pos: "0 < length h" using assms(1) by (cases h) auto
  have c1: "1 \<le> count_list h k"
    using assms(1) count_list_0_iff [of h k] by (cases "count_list h k") auto
  have cn: "count_list h k \<le> length h" by (rule count_le_length)
  have "real (length h) \<le> 100 * real (count_list h k)"
    using c1 assms(2) by (simp add: of_nat_le_iff [symmetric] del: of_nat_le_iff) 
  then show "1 / 100 \<le> real (count_list h k) / real (length h)"
    using pos by (simp add: field_simps)
  show "real (count_list h k) / real (length h) \<le> 1"
    using pos cn by (simp add: field_simps)
qed

lemma percentages_sum_rounding:
  assumes fl: "ieee_rounding fl" and ne: "h \<noteq> []" and len: "length h \<le> 100"
  shows "\<bar>(\<Sum>k\<in>set h. percentage fl (int (count_list h k)) (int (length h))) - 100\<bar>
           \<le> 300 * unit_roundoff"
proof -
  let ?p = "\<lambda>k. percentage fl (int (count_list h k)) (int (length h))"
  let ?e = "\<lambda>k. real (count_list h k) / real (length h) * 100"
  have each: "\<bar>?p k - ?e k\<bar> \<le> 3 * unit_roundoff * ?e k" if "k \<in> set h" for k
    using percentage_rounding [OF fl share_bounds [OF that len]]
    by (simp add: percentage_def)
  have "\<bar>sum ?p (set h) - 100\<bar> = \<bar>\<Sum>k\<in>set h. (?p k - ?e k)\<bar>"
    by (simp only: sum_subtractf exact_percentages_sum [OF ne])
  also have "\<dots> \<le> (\<Sum>k\<in>set h. \<bar>?p k - ?e k\<bar>)"
    by (rule sum_abs)
  also have "\<dots> \<le> (\<Sum>k\<in>set h. 3 * unit_roundoff * ?e k)"
    by (rule sum_mono) (rule each)
  also have "\<dots> = 3 * unit_roundoff * (\<Sum>k\<in>set h. ?e k)"
    by (simp only: sum_distrib_left)
  also have "\<dots> = 300 * unit_roundoff"
    by (simp only: exact_percentages_sum [OF ne])
  finally show ?thesis .
qed

subsection \<open>The detector\<close>

lemma detect_emotion_try_found:
  assumes "cvtColor cv frame = Inr gray" and "detectMultiScale cv gray = Inr (face # faces)"
    and "crop cv frame face = Inr face_img" and "analyze cv face_img = Inr (r # rs)"
    and "emotion r = Some scores"
  shows "detect_emotion_try cv frame =
           Inr (Some face, dominant_emotion r, score_get scores (dominant_emotion r) 0)"
  using assms by (simp add: detect_emotion_try_def Let_def)

lemma detect_emotion_found:
  assumes "cvtColor cv frame = Inr gray" and "detectMultiScale cv gray = Inr (face # faces)"
    and "crop cv frame face = Inr face_img" and "analyze cv face_img = Inr (r # rs)"
    and "emotion r = Some scores"
  shows "detect_emotion cv frame =
           (Some face, dominant_emotion r, score_get scores (dominant_emotion r) 0)"
  using detect_emotion_try_found [OF assms] by (simp add: detect_emotion_def)

lemma detect_emotion_no_label:
  "fst (snd (detect_emotion cv frame)) = None \<Longrightarrow> snd (snd (detect_emotion cv frame)) = 0"
  by (auto simp: detect_emotion_def detect_emotion_try_def score_get_def Let_def
      split: sum.splits list.splits option.splits)

lemma detect_emotion_ignores_other_faces:
  assumes "cvtColor cv frame = Inr gray" and "cvtColor cv' frame = Inr gray"
    and "detectMultiScale cv gray = Inr (face # faces)"
    and "detectMultiScale cv' gray = Inr (face # faces')"
    and "crop cv' frame face = crop cv frame face"
    and "\<And>face_img. crop cv frame face = Inr face_img \<Longrightarrow> analyze cv' face_img = analyze cv face_img"
  shows "detect_emotion cv' frame = detect_emotion cv frame"
proof (cases "crop cv frame face")
  case (Inl e)
  with assms show ?thesis
    by (simp add: detect_emotion_def detect_emotion_try_def)
next
  case (Inr face_img)
  with assms have "analyze cv' face_img = analyze cv face_img" by simp
  with Inr assms(1-5) show ?thesis
    by (simp add: detect_emotion_def detect_emotion_try_def)
qed

subsection \<open>Events\<close>

lemma deque_append_length_eq:
  "length (deque_append n xs x) = (if n < Suc (length xs) then length xs else Suc (length xs))"
  by (simp add: deque_append_def Let_def)

lemma record_observation_parallel:
  "length (emotion_history d) = length (emotion_timestamps d) \<Longrightarrow>
   length (emotion_history (record_observation d e now)) =
     length (emotion_timestamps (record_observation d e now))"
  by (simp add: record_observation_def deque_append_length_eq)

lemma record_all_parallel:
  "length (emotion_history d) = length (emotion_timestamps d) \<Longrightarrow>
   length (emotion_history (record_all obs d)) = length (emotion_timestamps (record_all obs d))"
proof (induction obs arbitrary: d)
  case Nil
  then show ?case by (simp add: record_all_Nil)
next
  case (Cons ob obs)
  obtain e now where ob: "ob = (e, now)" by (cases ob)
  show ?case
    unfolding ob record_all_Cons
    by (rule Cons.IH) (rule record_observation_parallel [OF Cons.prems])
qed

lemma run_detection_parallel:
  assumes "length (emotion_history (detector app)) = length (emotion_timestamps (detector app))"
  shows "length (emotion_history (detector (run_detection cv captures app))) =
         length (emotion_timestamps (detector (run_detection cv captures app)))"
proof (cases "detection_active app")
  case True
  then show ?thesis using assms by (simp add: run_detection_active record_all_parallel)
next
  case False
  then show ?thesis using assms by (simp add: run_detection_inactive)
qed

lemma apply_event_parallel:
  assumes "length (emotion_history (detector app)) = length (emotion_timestamps (detector app))"
  shows "length (emotion_history (detector (apply_event cv fl format_2f ev app))) =
         length (emotion_timestamps (detector (apply_event cv fl format_2f ev app)))"
proof (cases ev)
  case Start
  then show ?thesis using assms by (simp add: start_detection_def reset_emotion_history_def)
next
  case Stop
  then show ?thesis using assms by (simp add: detector_stop_detection)
next
  case (Run captures)
  then show ?thesis using assms by (simp add: run_detection_parallel)
next
  case Close
  then show ?thesis using assms by (simp add: on_closing_def)
qed

lemma exec_parallel:
  "length (emotion_history (detector app)) = length (emotion_timestamps (detector app)) \<Longrightarrow>
   length (emotion_history (detector (exec cv fl format_2f events app))) =
     length (emotion_timestamps (detector (exec cv fl format_2f events app)))"
  unfolding exec_def
  by (induction events arbitrary: app) (simp_all add: apply_event_parallel)

lemma session_in_progress_eq:
  "session_in_progress =
     \<lparr>detector = \<lparr>emotion_history = [''sad''], emotion_timestamps = [1]\<rparr>,
      detection_active = True,
      emotion_stats_label = ''Emotion Statistics will be displayed here.'',
      threads_started = 1\<rparr>"
  by (simp add: session_in_progress_def start_detection_def EmotionDetectionApp_init_def
      EmotionDetector_init_def reset_emotion_history_def detect_stub record_observation_def
      deque_append_def)

lemma stats_one_sad:
  "get_emotion_stats id \<lparr>emotion_history = [''sad''], emotion_timestamps = ts\<rparr> = [(''sad'', 100)]"
  by (simp add: get_emotion_stats_def dict_get_def percentage_def)

lemma observations_stub_numbered:
  "0 < i \<Longrightarrow> observations stub_vision (map numbered_capture [i..<j]) =
     map (\<lambda>k. (replicate k CHR ''x'', k)) [i..<j]"
proof (induction "j - i" arbitrary: i)
  case 0
  then show ?case by (simp add: observations_Nil)
next
  case (Suc n)
  then have lt: "i < j" and n: "n = j - Suc i" by simp_all
  have "observations stub_vision (map numbered_capture [i..<j]) =
      (replicate i CHR ''x'', i) # observations stub_vision (map numbered_capture [Suc i..<j])"
    using lt Suc.prems
    by (simp add: upt_conv_Cons observations_Cons numbered_capture_def observation_stub)
  also have "observations stub_vision (map numbered_capture [Suc i..<j]) =
      map (\<lambda>k. (replicate k CHR ''x'', k)) [Suc i..<j]"
    by (rule Suc.hyps(1) [OF n]) simp
  finally show ?case using lt by (simp add: upt_conv_Cons)
qed

subsection \<open>Split passes\<close>

lemma run_detection_split:
  "run_detection cv (((ret, frame), now) # rest) app =
     (case pass_head cv (ret, frame) app of
        None \<Rightarrow> app
      | Some emotion_label \<Rightarrow> run_detection cv rest (pass_tail emotion_label now app))"
  by (simp add: pass_head_def pass_tail_def split: prod.splits)

lemma pass_head_inactive: "\<not> detection_active app \<Longrightarrow> pass_head cv rd app = None"
  by (simp add: pass_head_def)

lemma pass_head_Some_active: "pass_head cv rd app = Some l \<Longrightarrow> detection_active app"
  by (simp add: pass_head_def split: if_splits)

lemma pass_tail_flag:
  "pass_tail l now (app\<lparr>detection_active := b\<rparr>) = (pass_tail l now app)\<lparr>detection_active := b\<rparr>"
  by (simp add: pass_tail_def split: option.splits)

lemma act_pass_is_run:
  "application (act cv fl format_2f (Loop_tail (length (in_flight s)) now)
      (act cv fl format_2f (Loop_head (ret, frame)) s)) =
   run_detection cv [((ret, frame), now)] (application s) "
  by (cases "pass_head cv (ret, frame) (application s)")
     (simp_all add: run_detection_split del: run_detection.simps(2))

lemma run_actions_Nil: "run_actions cv fl format_2f [] s = s"
  by (simp add: run_actions_def)

lemma run_actions_Cons:
  "run_actions cv fl format_2f (a # actions) s =
     run_actions cv fl format_2f actions (act cv fl format_2f a s)"
  by (simp add: run_actions_def)

lemma act_loop_idle:
  "\<not> detection_active (application s) \<Longrightarrow> in_flight s = [] \<Longrightarrow> loop_action a \<Longrightarrow>
   act cv fl format_2f a s = s"
  by (cases a) (simp_all add: pass_head_inactive)

lemma run_actions_loop_idle:
  "\<not> detection_active (application s) \<Longrightarrow> in_flight s = [] \<Longrightarrow>
   \<forall>a\<in>set actions. loop_action a \<Longrightarrow> run_actions cv fl format_2f actions s = s"
  by (induction actions) (simp_all add: run_actions_Nil run_actions_Cons act_loop_idle)

lemma in_flight_grows:
  assumes "length (in_flight s) < length (in_flight (act cv fl format_2f a s))"
  shows "detection_active (application s) \<and> (\<exists>rd. a = Loop_head rd)"
proof (cases a)
  case (Loop_head rd)
  with assms have "pass_head cv rd (application s) \<noteq> None"
    by (auto split: option.splits)
  then have "detection_active (application s)"
    by (rule contrapos_np) (rule pass_head_inactive)
  then show ?thesis using Loop_head by simp
next
  case (Loop_tail i now)
  then show ?thesis using assms by (simp split: if_splits)
qed (use assms in simp_all)

lemma history_changed_by:
  assumes "emotion_history (detector (application (act cv fl format_2f a s))) \<noteq>
           emotion_history (detector (application s))"
  shows "(a = Press_start \<and> \<not> detection_active (application s) \<and>
          emotion_history (detector (application (act cv fl format_2f a s))) = []) \<or>
         (\<exists>i now e. a = Loop_tail i now \<and> i < length (in_flight s) \<and> in_flight s ! i = Some e \<and>
            e \<noteq> [] \<and>
            emotion_history (detector (application (act cv fl format_2f a s))) =
              deque_append 100 (emotion_history (detector (application s))) e)"
proof (cases a)
  case Press_start
  then show ?thesis using assms
    by (auto simp: start_detection_def reset_emotion_history_def split: if_splits)
next
  case Press_stop
  then show ?thesis using assms by (simp add: detector_stop_detection)
next
  case Close_window
  then show ?thesis using assms by (simp add: on_closing_def)
next
  case (Loop_head rd)
  then show ?thesis using assms by (simp split: option.splits)
next
  case (Loop_tail i now)
  then show ?thesis using assms
    by (auto simp: pass_tail_def record_observation_def split: if_splits option.splits)
qed

lemma stats_empty_history:
  "get_emotion_stats fl \<lparr>emotion_history = [], emotion_timestamps = ts\<rparr> = []"
  by (simp add: get_emotion_stats_def)

lemma stopped_mid_pass_eq:
  "stopped_mid_pass =
     \<lparr>application =
        \<lparr>detector = \<lparr>emotion_history = [], emotion_timestamps = []\<rparr>,
         detection_active = False,
         emotion_stats_label = ''Emotion Statistics will be displayed here.'',
         threads_started = 1\<rparr>,
      in_flight = [Some ''sad'']\<rparr>"
  by (simp add: stopped_mid_pass_def run_actions_Cons run_actions_Nil threaded_init_def
      EmotionDetectionApp_init_def EmotionDetector_init_def start_detection_def
      reset_emotion_history_def pass_head_def detect_stub stop_detection_def Let_def
      stats_empty_history)

section \<open>The bounded history\<close>

text \<open>
  C1. The history is a bounded queue of capacity 100 that evicts its oldest entry.  A
  session that starts from an inactive application and then makes any passes of the
  loop holds the last (at most 100) labels it observed, in the order of arrival, so its
  length is the smaller of 100 and the number of observations; a pass that records a
  label \<open>e\<close> into a full history drops the oldest entry and nothing else; and the history
  never exceeds 100 entries in any state the application reaches from its initial one.
\<close>

theorem history_bounded_most_recent:
  "(\<not> detection_active app \<longrightarrow>
      emotion_history (detector (run_detection cv captures (start_detection app))) =
        drop (length (observations cv captures) - 100) (map fst (observations cv captures)) \<and>
      length (emotion_history (detector (run_detection cv captures (start_detection app)))) =
        min (length (observations cv captures)) 100) \<and>
   (detection_active app \<and> length (emotion_history (detector app)) = 100 \<and>
    observations cv [c] = [(e, now)] \<longrightarrow>
      emotion_history (detector (run_detection cv [c] app)) =
        tl (emotion_history (detector app)) @ [e]) \<and>
   length (emotion_history (detector (exec cv fl format_2f events EmotionDetectionApp_init))) \<le> 100"
proof (intro conjI impI)
  assume inactive: "\<not> detection_active app"
  let ?app = "start_detection app"
  have act: "detection_active ?app" and emp: "emotion_history (detector ?app) = []"
    using inactive by (simp_all add: start_detection_def reset_emotion_history_def)
  show hist: "emotion_history (detector (run_detection cv captures ?app)) =
      drop (length (observations cv captures) - 100) (map fst (observations cv captures))"
    using history_run_detection [OF act, of cv captures] emp by simp
  show "length (emotion_history (detector (run_detection cv captures ?app))) =
      min (length (observations cv captures)) 100"
    unfolding hist by simp
next
  assume full: "detection_active app \<and> length (emotion_history (detector app)) = 100 \<and>
    observations cv [c] = [(e, now)]"
  then have "emotion_history (detector (run_detection cv [c] app)) =
      drop 1 (emotion_history (detector app) @ [e])"
    using history_run_detection [of app cv "[c]"] by simp
  also have "\<dots> = tl (emotion_history (detector app)) @ [e]"
    using full by (cases "emotion_history (detector app)") (simp_all add: drop_Suc)
  finally show "emotion_history (detector (run_detection cv [c] app)) =
      tl (emotion_history (detector app)) @ [e]" .
next
  show "length (emotion_history (detector (exec cv fl format_2f events EmotionDetectionApp_init))) \<le> 100"
    by (rule history_bound_exec) (simp add: EmotionDetectionApp_init_def EmotionDetector_init_def)
qed

theorem history_bounded_most_recent_witness:
  "emotion_history (detector (run_detection stub_vision
      [((True, ''happy''), 1), ((True, ''happy''), 2), ((True, ''sad''), 3)]
      (start_detection EmotionDetectionApp_init))) = [''happy'', ''happy'', ''sad''] \<and>
   emotion_history (detector (run_detection stub_vision captures_105
      (start_detection EmotionDetectionApp_init))) = map (\<lambda>k. replicate k CHR ''x'') [6..<106] \<and>
   length (emotion_history (detector (run_detection stub_vision captures_105
      (start_detection EmotionDetectionApp_init)))) = 100 \<and>
   emotion_history (detector (run_detection stub_vision [((True, ''happy''), 7)] full_app)) =
     tl (replicate 100 ''sad'') @ [''happy'']"
proof -
  have obs3: "observations stub_vision
      [((True, ''happy''), 1), ((True, ''happy''), 2), ((True, ''sad''), 3)] =
      [(''happy'', 1), (''happy'', 2), (''sad'', 3)]"
    by (simp add: observations_Cons observations_Nil observation_stub)
  have obs105: "observations stub_vision captures_105 =
      map (\<lambda>k. (replicate k CHR ''x'', k)) [1..<106]"
    unfolding captures_105_def by (rule observations_stub_numbered) simp
  have obs1: "observations stub_vision [((True, ''happy''), 7)] = [(''happy'', 7)]"
    by (simp add: observations_Cons observations_Nil observation_stub)
  have inactive: "\<not> detection_active EmotionDetectionApp_init"
    by (simp add: EmotionDetectionApp_init_def)
  have full: "detection_active full_app \<and> length (emotion_history (detector full_app)) = 100"
    by (simp add: full_app_def)
  from history_bounded_most_recent [where app = EmotionDetectionApp_init and cv = stub_vision
      and captures = "[((True, ''happy''), 1), ((True, ''happy''), 2), ((True, ''sad''), 3)]"]
    obs3 inactive
  have 1: "emotion_history (detector (run_detection stub_vision
      [((True, ''happy''), 1), ((True, ''happy''), 2), ((True, ''sad''), 3)]
      (start_detection EmotionDetectionApp_init))) = [''happy'', ''happy'', ''sad'']"
    by (simp del: run_detection.simps)
  from history_bounded_most_recent [where app = EmotionDetectionApp_init and cv = stub_vision
      and captures = captures_105] inactive
  have 2: "emotion_history (detector (run_detection stub_vision captures_105
      (start_detection EmotionDetectionApp_init))) = map (\<lambda>k. replicate k CHR ''x'') [6..<106]"
    and 3: "length (emotion_history (detector (run_detection stub_vision captures_105
      (start_detection EmotionDetectionApp_init)))) = 100"
    by (simp_all add: obs105 drop_map comp_def)
  from history_bounded_most_recent [where app = full_app and cv = stub_vision
      and c = "((True, ''happy''), 7)" and e = "''happy''" and now = 7] obs1 full
  have 4: "emotion_history (detector (run_detection stub_vision [((True, ''happy''), 7)] full_app)) =
      tl (emotion_history (detector full_app)) @ [''happy'']"
    by blast
  from 1 2 3 4 show ?thesis by (simp add: full_app_def)
qed

section \<open>The frequency distribution\<close>

text \<open>
  C2. \<^verbatim>\<open>get_emotion_stats\<close> reads the history and nothing else, so it gives the same result
  whatever the session flag is.  On an empty history it returns the empty dict.  Otherwise
  its keys are the distinct labels of the history, each once, and the value of a label is
  Python's \<^verbatim>\<open>count / total * 100\<close>: in exact arithmetic \<open>100 * count / total\<close>, with values
  that sum to 100; in double precision, on a history of at most 100 entries (as every
  reachable history is), within a relative error of three unit roundoffs of it, with
  values whose sum is within \<open>1e-6\<close> of 100.
\<close>

theorem get_emotion_stats_distribution:
  "(emotion_history d = [] \<longrightarrow> get_emotion_stats fl d = []) \<and>
   distinct (map fst (get_emotion_stats fl d)) \<and>
   fst ` set (get_emotion_stats fl d) = set (emotion_history d) \<and>
   (\<forall>l\<in>set (emotion_history d).
      map_of (get_emotion_stats fl d) l =
        Some (fl (fl (real (count_list (emotion_history d) l) / real (length (emotion_history d))) * 100)) \<and>
      map_of (get_emotion_stats (\<lambda>x. x) d) l =
        Some (100 * real (count_list (emotion_history d) l) / real (length (emotion_history d)))) \<and>
   (emotion_history d \<noteq> [] \<longrightarrow> sum_list (map snd (get_emotion_stats (\<lambda>x. x) d)) = 100) \<and>
   (ieee_rounding fl \<and> emotion_history d \<noteq> [] \<and> length (emotion_history d) \<le> 100 \<longrightarrow>
      (\<forall>l\<in>set (emotion_history d). \<exists>v.
         map_of (get_emotion_stats fl d) l = Some v \<and>
         \<bar>v - 100 * real (count_list (emotion_history d) l) / real (length (emotion_history d))\<bar>
           \<le> 3 * unit_roundoff *
              (100 * real (count_list (emotion_history d) l) / real (length (emotion_history d)))) \<and>
      \<bar>sum_list (map snd (get_emotion_stats fl d)) - 100\<bar> \<le> 1 / 10 ^ 6) \<and>
   get_emotion_stats fl (detector (app\<lparr>detection_active := b\<rparr>)) = get_emotion_stats fl (detector app)"
proof (intro conjI impI ballI)
  show "get_emotion_stats fl d = []" if "emotion_history d = []"
    using that by (rule get_emotion_stats_empty)
  show "distinct (map fst (get_emotion_stats fl d))"
    by (rule get_emotion_stats_distinct)
  show "fst ` set (get_emotion_stats fl d) = set (emotion_history d)"
    by (rule get_emotion_stats_key_set)
  show "map_of (get_emotion_stats fl d) l =
      Some (fl (fl (real (count_list (emotion_history d) l) / real (length (emotion_history d))) * 100))"
    if "l \<in> set (emotion_history d)" for l
    using that by (simp add: get_emotion_stats_map_of percentage_def)
  show "map_of (get_emotion_stats (\<lambda>x. x) d) l =
      Some (100 * real (count_list (emotion_history d) l) / real (length (emotion_history d)))"
    if "l \<in> set (emotion_history d)" for l
    using that by (simp add: get_emotion_stats_map_of percentage_def)
  show "sum_list (map snd (get_emotion_stats (\<lambda>x. x) d)) = 100" if "emotion_history d \<noteq> []"
    using exact_percentages_sum [OF that] by (simp add: get_emotion_stats_sum percentage_def)
  show "\<exists>v. map_of (get_emotion_stats fl d) l = Some v \<and>
      \<bar>v - 100 * real (count_list (emotion_history d) l) / real (length (emotion_history d))\<bar>
        \<le> 3 * unit_roundoff *
           (100 * real (count_list (emotion_history d) l) / real (length (emotion_history d)))"
    if "ieee_rounding fl \<and> emotion_history d \<noteq> [] \<and> length (emotion_history d) \<le> 100"
      and "l \<in> set (emotion_history d)" for l
    using that percentage_rounding [of fl, OF _ share_bounds [of l "emotion_history d"]]
    by (simp add: get_emotion_stats_map_of percentage_def algebra_simps)
  show "\<bar>sum_list (map snd (get_emotion_stats fl d)) - 100\<bar> \<le> 1 / 10 ^ 6"
    if "ieee_rounding fl \<and> emotion_history d \<noteq> [] \<and> length (emotion_history d) \<le> 100"
  proof -
    have "\<bar>sum_list (map snd (get_emotion_stats fl d)) - 100\<bar> \<le> 300 * unit_roundoff"
      using that percentages_sum_rounding [of fl "emotion_history d"]
      by (simp add: get_emotion_stats_sum)
    also have "\<dots> \<le> 1 / 10 ^ 6"
      by (simp add: unit_roundoff_def)
    finally show ?thesis .
  qed
  show "get_emotion_stats fl (detector (app\<lparr>detection_active := b\<rparr>)) = get_emotion_stats fl (detector app)"
    by simp
qed

theorem get_emotion_stats_distribution_witness:
  "get_emotion_stats (\<lambda>x. x) EmotionDetector_init = [] \<and>
   ieee_rounding (\<lambda>x. x) \<and>
   get_emotion_stats (\<lambda>x. x) three_labels = [(''happy'', 200 / 3), (''sad'', 100 / 3)] \<and>
   map_of (get_emotion_stats (\<lambda>x. x) three_labels) ''happy'' = Some (200 / 3) \<and>
   sum_list (map snd (get_emotion_stats (\<lambda>x. x) three_labels)) = 100 \<and>
   \<bar>sum_list (map snd (get_emotion_stats (\<lambda>x. x) three_labels)) - 100\<bar> \<le> 1 / 10 ^ 6"
proof -
  have empty: "emotion_history EmotionDetector_init = []"
    by (simp add: EmotionDetector_init_def)
  have exact: "ieee_rounding (\<lambda>x. x)"
    by (simp add: ieee_rounding_def unit_roundoff_def)
  have three: "emotion_history three_labels \<noteq> []" "''happy'' \<in> set (emotion_history three_labels)"
    "length (emotion_history three_labels) \<le> 100"
    by (simp_all add: three_labels_def)
  have run: "get_emotion_stats (\<lambda>x. x) three_labels = [(''happy'', 200 / 3), (''sad'', 100 / 3)]"
    by (simp add: get_emotion_stats_def three_labels_def dict_get_def percentage_def)
  from get_emotion_stats_distribution [of EmotionDetector_init "\<lambda>x. x"]
    get_emotion_stats_distribution [of three_labels "\<lambda>x. x"]
    empty exact three run
  show ?thesis by simp
qed

section \<open>The detector adapter\<close>

text \<open>
  C3. \<^verbatim>\<open>detect_emotion\<close> fails open.  When face localisation returns no face the
  result is \<open>(None, None, 0)\<close>.  When any step raises (the colour conversion, the
  localisation, the crop, the classifier, the subscript \<^verbatim>\<open>[0]\<close> of an empty result list or
  the subscript \<^verbatim>\<open>['emotion']\<close> of a result without that key) the handler returns
  \<open>(None, None, 0)\<close>.  Every call returns a triple: the fallback, or what the body
  returned.
\<close>

theorem detect_emotion_fail_open:
  "(cvtColor cv frame = Inr gray \<and> detectMultiScale cv gray = Inr [] \<longrightarrow>
      detect_emotion_try cv frame = Inr (None, None, 0) \<and>
      detect_emotion cv frame = (None, None, 0)) \<and>
   (detect_emotion_try cv frame = Inl e \<longrightarrow> detect_emotion cv frame = (None, None, 0)) \<and>
   (cvtColor cv frame = Inl e \<longrightarrow>
      detect_emotion_try cv frame = Inl e \<and> detect_emotion cv frame = (None, None, 0)) \<and>
   (cvtColor cv frame = Inr gray \<and> detectMultiScale cv gray = Inl e \<longrightarrow>
      detect_emotion_try cv frame = Inl e \<and> detect_emotion cv frame = (None, None, 0)) \<and>
   (cvtColor cv frame = Inr gray \<and> detectMultiScale cv gray = Inr (face # faces) \<and>
    crop cv frame face = Inl e \<longrightarrow>
      detect_emotion_try cv frame = Inl e \<and> detect_emotion cv frame = (None, None, 0)) \<and>
   (cvtColor cv frame = Inr gray \<and> detectMultiScale cv gray = Inr (face # faces) \<and>
    crop cv frame face = Inr face_img \<and> analyze cv face_img = Inl e \<longrightarrow>
      detect_emotion_try cv frame = Inl e \<and> detect_emotion cv frame = (None, None, 0)) \<and>
   (cvtColor cv frame = Inr gray \<and> detectMultiScale cv gray = Inr (face # faces) \<and>
    crop cv frame face = Inr face_img \<and> analyze cv face_img = Inr [] \<longrightarrow>
      detect_emotion_try cv frame = Inl IndexError \<and> detect_emotion cv frame = (None, None, 0)) \<and>
   (cvtColor cv frame = Inr gray \<and> detectMultiScale cv gray = Inr (face # faces) \<and>
    crop cv frame face = Inr face_img \<and> analyze cv face_img = Inr (r # rs) \<and>
    emotion r = None \<longrightarrow>
      detect_emotion_try cv frame = Inl KeyError \<and> detect_emotion cv frame = (None, None, 0)) \<and>
   (detect_emotion cv frame = (None, None, 0) \<or>
    detect_emotion_try cv frame = Inr (detect_emotion cv frame))"
proof (intro conjI impI)
  show "detect_emotion cv frame = (None, None, 0) \<or>
      detect_emotion_try cv frame = Inr (detect_emotion cv frame)"
    by (cases "detect_emotion_try cv frame") (simp_all add: detect_emotion_def)
qed (simp_all add: detect_emotion_def detect_emotion_try_def Let_def)

theorem detect_emotion_fail_open_witness:
  "detect_emotion (stub_vision\<lparr>detectMultiScale := \<lambda>gray. Inr []\<rparr>) ''happy'' = (None, None, 0) \<and>
   detect_emotion (stub_vision\<lparr>cvtColor := \<lambda>frame. Inl (LibraryError ''bad frame'')\<rparr>) ''happy'' =
     (None, None, 0) \<and>
   detect_emotion (stub_vision\<lparr>analyze := \<lambda>face_img. Inl (LibraryError ''model'')\<rparr>) ''happy'' =
     (None, None, 0) \<and>
   detect_emotion (stub_vision\<lparr>analyze := \<lambda>face_img. Inr []\<rparr>) ''happy'' = (None, None, 0) \<and>
   detect_emotion_try stub_vision ''happy'' = Inr (detect_emotion stub_vision ''happy'')"
proof -
  let ?none = "stub_vision\<lparr>detectMultiScale := \<lambda>gray. Inr []\<rparr>"
  let ?bad = "stub_vision\<lparr>cvtColor := \<lambda>frame. Inl (LibraryError ''bad frame'')\<rparr>"
  let ?model = "stub_vision\<lparr>analyze := \<lambda>face_img. Inl (LibraryError ''model'')\<rparr>"
  let ?short = "stub_vision\<lparr>analyze := \<lambda>face_img. Inr []\<rparr>"
  have none: "cvtColor ?none ''happy'' = Inr ''happy'' \<and> detectMultiScale ?none ''happy'' = Inr []"
    by (simp add: stub_vision_def)
  have bad: "cvtColor ?bad ''happy'' = Inl (LibraryError ''bad frame'')"
    by simp
  have model: "cvtColor ?model ''happy'' = Inr ''happy'' \<and>
      detectMultiScale ?model ''happy'' = Inr [(0, 0, 48, 48)] \<and>
      crop ?model ''happy'' (0, 0, 48, 48) = Inr ''happy'' \<and>
      analyze ?model ''happy'' = Inl (LibraryError ''model'')"
    by (simp add: stub_vision_def)
  have short: "cvtColor ?short ''happy'' = Inr ''happy'' \<and>
      detectMultiScale ?short ''happy'' = Inr [(0, 0, 48, 48)] \<and>
      crop ?short ''happy'' (0, 0, 48, 48) = Inr ''happy'' \<and>
      analyze ?short ''happy'' = Inr []"
    by (simp add: stub_vision_def)
  have ok: "detect_emotion stub_vision ''happy'' \<noteq> (None, None, 0)"
    by (simp add: detect_stub)
  from detect_emotion_fail_open [of ?none "''happy''" "''happy''"] none
  have 1: "detect_emotion ?none ''happy'' = (None, None, 0)" by blast
  from detect_emotion_fail_open [of ?bad "''happy''" _ "LibraryError ''bad frame''"] bad
  have 2: "detect_emotion ?bad ''happy'' = (None, None, 0)" by blast
  from detect_emotion_fail_open [of ?model "''happy''" "''happy''" "LibraryError ''model''"
      "(0, 0, 48, 48)" "[]" "''happy''"] model
  have 3: "detect_emotion ?model ''happy'' = (None, None, 0)" by blast
  from detect_emotion_fail_open [of ?short "''happy''" "''happy''" _ "(0, 0, 48, 48)" "[]" "''happy''"] short
  have 4: "detect_emotion ?short ''happy'' = (None, None, 0)" by blast
  from detect_emotion_fail_open [of stub_vision "''happy''"] ok
  have 5: "detect_emotion_try stub_vision ''happy'' = Inr (detect_emotion stub_vision ''happy'')"
    by blast
  from 1 2 3 4 5 show ?thesis by blast
qed

text \<open>
  C8. When face localisation finds at least one face, the first box of the list is the one
  returned, only its crop is classified (other boxes and the classifier's answers on other
  images do not change the result), the label is the classifier's dominant label and the
  confidence is the score the classifier reports for that label, or 0 when there is no
  label.
\<close>

theorem detect_emotion_first_face:
  "(cvtColor cv frame = Inr gray \<and> detectMultiScale cv gray = Inr (face # faces) \<and>
    crop cv frame face = Inr face_img \<and> analyze cv face_img = Inr (r # rs) \<and>
    emotion r = Some scores \<longrightarrow>
      fst (detect_emotion cv frame) = Some face \<and>
      fst (snd (detect_emotion cv frame)) = dominant_emotion r \<and>
      (\<forall>l s. dominant_emotion r = Some l \<and> scores l = Some s \<longrightarrow>
         snd (snd (detect_emotion cv frame)) = s) \<and>
      (dominant_emotion r = None \<longrightarrow> snd (snd (detect_emotion cv frame)) = 0)) \<and>
   (fst (snd (detect_emotion cv frame)) = None \<longrightarrow> snd (snd (detect_emotion cv frame)) = 0) \<and>
   (cvtColor cv frame = Inr gray \<and> cvtColor cv' frame = Inr gray \<and>
    detectMultiScale cv gray = Inr (face # faces) \<and>
    detectMultiScale cv' gray = Inr (face # faces') \<and>
    crop cv' frame face = crop cv frame face \<and>
    (\<forall>img. crop cv frame face = Inr img \<longrightarrow> analyze cv' img = analyze cv img) \<longrightarrow>
      detect_emotion cv' frame = detect_emotion cv frame)"
proof (intro conjI impI allI)
  assume "cvtColor cv frame = Inr gray \<and> cvtColor cv' frame = Inr gray \<and>
    detectMultiScale cv gray = Inr (face # faces) \<and>
    detectMultiScale cv' gray = Inr (face # faces') \<and>
    crop cv' frame face = crop cv frame face \<and>
    (\<forall>img. crop cv frame face = Inr img \<longrightarrow> analyze cv' img = analyze cv img)"
  then show "detect_emotion cv' frame = detect_emotion cv frame"
    by (intro detect_emotion_ignores_other_faces [of cv frame gray cv' face faces faces']) simp_all
next
  assume "fst (snd (detect_emotion cv frame)) = None"
  then show "snd (snd (detect_emotion cv frame)) = 0"
    by (rule detect_emotion_no_label)
next
  assume found: "cvtColor cv frame = Inr gray \<and> detectMultiScale cv gray = Inr (face # faces) \<and>
    crop cv frame face = Inr face_img \<and> analyze cv face_img = Inr (r # rs) \<and>
    emotion r = Some scores"
  then have det: "detect_emotion cv frame =
      (Some face, dominant_emotion r, score_get scores (dominant_emotion r) 0)"
    by (intro detect_emotion_found [of cv frame gray face faces face_img r rs scores]) simp_all
  show "fst (detect_emotion cv frame) = Some face"
    and "fst (snd (detect_emotion cv frame)) = dominant_emotion r"
    by (simp_all add: det)
  show "snd (snd (detect_emotion cv frame)) = s"
    if "dominant_emotion r = Some l \<and> scores l = Some s" for l s
    using that by (simp add: det score_get_def)
  show "snd (snd (detect_emotion cv frame)) = 0" if "dominant_emotion r = None"
    using that by (simp add: det score_get_def)
qed

theorem detect_emotion_first_face_witness:
  "detect_emotion two_faces ''happy'' = (Some (5, 6, 30, 30), Some ''happy'', 99) \<and>
   detect_emotion (two_faces\<lparr>detectMultiScale := \<lambda>gray. Inr [(5, 6, 30, 30)]\<rparr>) ''happy'' =
     detect_emotion two_faces ''happy'' \<and>
   detect_emotion unlabelled ''happy'' = (Some (0, 0, 48, 48), None, 0) \<and>
   snd (snd (detect_emotion (stub_vision\<lparr>detectMultiScale := \<lambda>gray. Inr []\<rparr>) ''happy'')) = 0"
proof -
  let ?one = "two_faces\<lparr>detectMultiScale := \<lambda>gray. Inr [(5, 6, 30, 30)]\<rparr>"
  let ?r = "\<lparr>dominant_emotion = Some ''happy'', emotion = Some [''happy'' \<mapsto> 99]\<rparr>"
  let ?n = "\<lparr>dominant_emotion = None, emotion = Some [''happy'' \<mapsto> (99::real)]\<rparr>"
  let ?none = "stub_vision\<lparr>detectMultiScale := \<lambda>gray. Inr []\<rparr>"
  have two: "cvtColor two_faces ''happy'' = Inr ''happy'' \<and>
      detectMultiScale two_faces ''happy'' = Inr [(5, 6, 30, 30), (100, 20, 200, 200)] \<and>
      crop two_faces ''happy'' (5, 6, 30, 30) = Inr ''happy'' \<and>
      analyze two_faces ''happy'' = Inr [?r] \<and>
      emotion ?r = Some [''happy'' \<mapsto> 99] \<and>
      dominant_emotion ?r = Some ''happy'' \<and> [''happy'' \<mapsto> (99::real)] ''happy'' = Some 99"
    by (simp add: two_faces_def stub_vision_def)
  have one: "cvtColor ?one ''happy'' = Inr ''happy'' \<and>
      detectMultiScale ?one ''happy'' = Inr [(5, 6, 30, 30)] \<and>
      crop ?one ''happy'' (5, 6, 30, 30) = crop two_faces ''happy'' (5, 6, 30, 30) \<and>
      (\<forall>img. analyze ?one img = analyze two_faces img)"
    by (simp add: two_faces_def stub_vision_def)
  have unl: "cvtColor unlabelled ''happy'' = Inr ''happy'' \<and>
      detectMultiScale unlabelled ''happy'' = Inr [(0, 0, 48, 48)] \<and>
      crop unlabelled ''happy'' (0, 0, 48, 48) = Inr ''happy'' \<and>
      analyze unlabelled ''happy'' = Inr [?n] \<and>
      emotion ?n = Some [''happy'' \<mapsto> 99] \<and> dominant_emotion ?n = None"
    by (simp add: unlabelled_def stub_vision_def)
  have none: "fst (snd (detect_emotion ?none ''happy'')) = None"
    by (simp add: detect_emotion_def detect_emotion_try_def stub_vision_def)
  from detect_emotion_first_face [of two_faces "''happy''" "''happy''" "(5, 6, 30, 30)"
      "[(100, 20, 200, 200)]" "''happy''" ?r "[]" "[''happy'' \<mapsto> 99]" ?one "[]"] two one
  have 1: "detect_emotion two_faces ''happy'' = (Some (5, 6, 30, 30), Some ''happy'', 99)"
    and 2: "detect_emotion ?one ''happy'' = detect_emotion two_faces ''happy''"
    by (simp_all add: prod_eq_iff)
  from detect_emotion_first_face [of unlabelled "''happy''" "''happy''" "(0, 0, 48, 48)"
      "[]" "''happy''" ?n "[]" "[''happy'' \<mapsto> 99]"] unl
  have 3: "detect_emotion unlabelled ''happy'' = (Some (0, 0, 48, 48), None, 0)"
    by (simp add: prod_eq_iff)
  from detect_emotion_first_face [of ?none "''happy''"] none
  have 4: "snd (snd (detect_emotion ?none ''happy'')) = 0"
    by blast
  from 1 2 3 4 show ?thesis by blast
qed

text \<open>
  C10. A confidence of 0 does not mean that nothing was detected: when the score dict
  lacks the dominant label, the result carries the face box and the label with
  confidence 0; and when the classifier names no label, the result still carries the
  face box.
\<close>

theorem zero_confidence_is_not_absence:
  "cvtColor cv frame = Inr gray \<and> detectMultiScale cv gray = Inr (face # faces) \<and>
   crop cv frame face = Inr face_img \<and> analyze cv face_img = Inr (r # rs) \<and>
   emotion r = Some scores \<longrightarrow>
     (\<forall>l. dominant_emotion r = Some l \<and> scores l = None \<longrightarrow>
        detect_emotion cv frame = (Some face, Some l, 0)) \<and>
     (dominant_emotion r = None \<longrightarrow> detect_emotion cv frame = (Some face, None, 0))"
proof (intro impI)
  assume "cvtColor cv frame = Inr gray \<and> detectMultiScale cv gray = Inr (face # faces) \<and>
   crop cv frame face = Inr face_img \<and> analyze cv face_img = Inr (r # rs) \<and>
   emotion r = Some scores"
  then have "detect_emotion cv frame =
      (Some face, dominant_emotion r, score_get scores (dominant_emotion r) 0)"
    by (intro detect_emotion_found [of cv frame gray face faces face_img r rs scores]) simp_all
  then show "(\<forall>l. dominant_emotion r = Some l \<and> scores l = None \<longrightarrow>
        detect_emotion cv frame = (Some face, Some l, 0)) \<and>
     (dominant_emotion r = None \<longrightarrow> detect_emotion cv frame = (Some face, None, 0))"
    by (simp add: score_get_def)
qed

theorem zero_confidence_is_not_absence_witness:
  "detect_emotion unscored ''happy'' = (Some (0, 0, 48, 48), Some ''happy'', 0) \<and>
   detect_emotion unlabelled ''happy'' = (Some (0, 0, 48, 48), None, 0)"
proof -
  let ?u = "\<lparr>dominant_emotion = Some ''happy'', emotion = Some (Map.empty :: string \<rightharpoonup> real)\<rparr>"
  let ?n = "\<lparr>dominant_emotion = None, emotion = Some [''happy'' \<mapsto> (99::real)]\<rparr>"
  have uns: "cvtColor unscored ''happy'' = Inr ''happy'' \<and>
      detectMultiScale unscored ''happy'' = Inr [(0, 0, 48, 48)] \<and>
      crop unscored ''happy'' (0, 0, 48, 48) = Inr ''happy'' \<and>
      analyze unscored ''happy'' = Inr [?u] \<and>
      emotion ?u = Some Map.empty \<and> dominant_emotion ?u = Some ''happy'' \<and>
      (Map.empty :: string \<rightharpoonup> real) ''happy'' = None"
    by (simp add: unscored_def stub_vision_def)
  have unl: "cvtColor unlabelled ''happy'' = Inr ''happy'' \<and>
      detectMultiScale unlabelled ''happy'' = Inr [(0, 0, 48, 48)] \<and>
      crop unlabelled ''happy'' (0, 0, 48, 48) = Inr ''happy'' \<and>
      analyze unlabelled ''happy'' = Inr [?n] \<and>
      emotion ?n = Some [''happy'' \<mapsto> 99] \<and> dominant_emotion ?n = None"
    by (simp add: unlabelled_def stub_vision_def)
  from zero_confidence_is_not_absence [of unscored "''happy''" "''happy''" "(0, 0, 48, 48)"
      "[]" "''happy''" ?u "[]" Map.empty] uns
  have 1: "detect_emotion unscored ''happy'' = (Some (0, 0, 48, 48), Some ''happy'', 0)"
    by simp
  from zero_confidence_is_not_absence [of unlabelled "''happy''" "''happy''" "(0, 0, 48, 48)"
      "[]" "''happy''" ?n "[]" "[''happy'' \<mapsto> 99]"] unl
  have 2: "detect_emotion unlabelled ''happy'' = (Some (0, 0, 48, 48), None, 0)"
    by simp
  from 1 2 show ?thesis by blast
qed

section \<open>The session\<close>

text \<open>
  C4, as stated, fails: \<^verbatim>\<open>start_detection\<close> tests the flag first and does nothing when a
  session is active.  In a session that has recorded \<open>sad\<close>, a second click on Start keeps
  that entry, and the next observation is appended behind it.
\<close>

theorem start_always_clears_counterexample:
  "detection_active session_in_progress \<and>
   emotion_history (detector session_in_progress) = [''sad''] \<and>
   emotion_history (detector (start_detection session_in_progress)) = [''sad''] \<and>
   emotion_history (detector
     (run_detection stub_vision [((True, ''happy''), 2)] (start_detection session_in_progress))) =
     [''sad'', ''happy'']"
  by (simp add: session_in_progress_eq start_detection_def detect_stub record_observation_def
      deque_append_def)

text \<open>
  C4, amended.  From an inactive application \<^verbatim>\<open>start_detection\<close> empties both deques
  and sets the flag before any pass of the loop, so the history of the new session holds
  only labels observed after the call; while a session is active the call leaves the
  detector as it is.
\<close>

theorem start_clears_when_inactive:
  "(\<not> detection_active app \<longrightarrow>
      emotion_history (detector (start_detection app)) = [] \<and>
      emotion_timestamps (detector (start_detection app)) = [] \<and>
      detection_active (start_detection app) \<and>
      emotion_history (detector (run_detection cv captures (start_detection app))) =
        drop (length (observations cv captures) - 100) (map fst (observations cv captures))) \<and>
   (detection_active app \<longrightarrow> detector (start_detection app) = detector app)"
proof (intro conjI impI)
  assume inactive: "\<not> detection_active app"
  show emp: "emotion_history (detector (start_detection app)) = []"
    and "emotion_timestamps (detector (start_detection app)) = []"
    and act: "detection_active (start_detection app)"
    using inactive by (simp_all add: start_detection_def reset_emotion_history_def)
  show "emotion_history (detector (run_detection cv captures (start_detection app))) =
      drop (length (observations cv captures) - 100) (map fst (observations cv captures))"
    using history_run_detection [OF act, of cv captures] emp by simp
next
  assume "detection_active app"
  then show "detector (start_detection app) = detector app"
    by (simp add: start_detection_active)
qed

theorem start_clears_when_inactive_witness:
  "emotion_history (detector (start_detection (snd (stop_detection id stub_format_2f session_in_progress)))) = [] \<and>
   emotion_history (detector (run_detection stub_vision [((True, ''happy''), 2)]
     (start_detection (snd (stop_detection id stub_format_2f session_in_progress))))) = [''happy''] \<and>
   detector (start_detection session_in_progress) = detector session_in_progress"
proof -
  let ?stopped = "snd (stop_detection id stub_format_2f session_in_progress)"
  have inactive: "\<not> detection_active ?stopped"
    by (simp add: stop_detection_def Let_def)
  have active: "detection_active session_in_progress"
    by (simp add: session_in_progress_eq)
  have obs: "observations stub_vision [((True, ''happy''), 2)] = [(''happy'', 2)]"
    by (simp add: observations_Cons observations_Nil observation_stub)
  from start_clears_when_inactive [of ?stopped stub_vision "[((True, ''happy''), 2)]"]
    start_clears_when_inactive [of session_in_progress] inactive active obs
  show ?thesis by (simp del: run_detection.simps)
qed

text \<open>
  C5. A click on Start while the session is active changes nothing: the application
  afterwards is the application before, so the flag is still set, both deques are as they
  were and no further thread has been started.
\<close>

theorem start_detection_while_active:
  "detection_active app \<longrightarrow>
     start_detection app = app \<and>
     detection_active (start_detection app) \<and>
     emotion_history (detector (start_detection app)) = emotion_history (detector app) \<and>
     emotion_timestamps (detector (start_detection app)) = emotion_timestamps (detector app) \<and>
     threads_started (start_detection app) = threads_started app"
  by (simp add: start_detection_def)

theorem start_detection_while_active_witness:
  "start_detection session_in_progress = session_in_progress \<and>
   emotion_history (detector (start_detection session_in_progress)) = [''sad''] \<and>
   threads_started (start_detection session_in_progress) = 1"
proof -
  have active: "detection_active session_in_progress"
    by (simp add: session_in_progress_eq)
  from start_detection_while_active [of session_in_progress] active
  have "start_detection session_in_progress = session_in_progress" by blast
  then show ?thesis by (simp add: session_in_progress_eq)
qed

text \<open>
  C6, as stated, fails: \<^verbatim>\<open>stop_detection\<close> returns \<^verbatim>\<open>None\<close> in either state, neither the
  distribution of an active session nor an empty dict in an inactive one.
\<close>

theorem stop_returns_snapshot_counterexample:
  "detection_active session_in_progress \<and>
   get_emotion_stats id (detector session_in_progress) = [(''sad'', 100)] \<and>
   fst (stop_detection id stub_format_2f session_in_progress) = None \<and>
   fst (stop_detection id stub_format_2f session_in_progress) \<noteq> Some [(''sad'', 100)] \<and>
   \<not> detection_active EmotionDetectionApp_init \<and>
   fst (stop_detection id stub_format_2f EmotionDetectionApp_init) \<noteq> Some []"
  by (simp add: session_in_progress_eq stats_one_sad stop_detection_def Let_def
      EmotionDetectionApp_init_def)

text \<open>
  C6, amended.  Called while the session is active, \<^verbatim>\<open>stop_detection\<close> clears the flag,
  computes the distribution of the history as it is at that moment and, when it is not
  empty, writes its text on the statistics label (an empty one leaves the label alone);
  the detector is untouched and the call returns \<^verbatim>\<open>None\<close>.  Called while inactive it
  changes nothing and returns \<^verbatim>\<open>None\<close>; so a second call in a row is always a no-op.
\<close>

theorem stop_detection_publishes_snapshot:
  "(detection_active app \<longrightarrow>
      fst (stop_detection fl format_2f app) = None \<and>
      \<not> detection_active (snd (stop_detection fl format_2f app)) \<and>
      detector (snd (stop_detection fl format_2f app)) = detector app \<and>
      threads_started (snd (stop_detection fl format_2f app)) = threads_started app \<and>
      emotion_stats_label (snd (stop_detection fl format_2f app)) =
        (if get_emotion_stats fl (detector app) = [] then emotion_stats_label app
         else stats_text format_2f (get_emotion_stats fl (detector app)))) \<and>
   (\<not> detection_active app \<longrightarrow> stop_detection fl format_2f app = (None, app)) \<and>
   stop_detection fl format_2f (snd (stop_detection fl format_2f app)) =
     (None, snd (stop_detection fl format_2f app))"
  by (simp add: stop_detection_def Let_def)

theorem stop_detection_publishes_snapshot_witness:
  "\<not> detection_active (snd (stop_detection id stub_format_2f session_in_progress)) \<and>
   emotion_history (detector (snd (stop_detection id stub_format_2f session_in_progress))) = [''sad''] \<and>
   emotion_stats_label (snd (stop_detection id stub_format_2f session_in_progress)) =
     ''Emotion statistics:'' @ [CHR 0x0A] @ ''sad: 100.00%'' \<and>
   stop_detection id stub_format_2f EmotionDetectionApp_init = (None, EmotionDetectionApp_init)"
proof -
  have active: "detection_active session_in_progress"
    by (simp add: session_in_progress_eq)
  have inactive: "\<not> detection_active EmotionDetectionApp_init"
    by (simp add: EmotionDetectionApp_init_def)
  have stats: "get_emotion_stats id (detector session_in_progress) = [(''sad'', 100)]"
    by (simp add: session_in_progress_eq stats_one_sad)
  have rendered: "stats_text stub_format_2f [(''sad'', 100)] =
      ''Emotion statistics:'' @ [CHR 0x0A] @ ''sad: 100.00%''"
    by (simp add: stats_text_def stub_format_2f_def)
  have hist: "emotion_history (detector session_in_progress) = [''sad'']"
    by (simp add: session_in_progress_eq)
  from stop_detection_publishes_snapshot [of session_in_progress id stub_format_2f]
    stop_detection_publishes_snapshot [of EmotionDetectionApp_init id stub_format_2f]
    active inactive stats rendered hist
  show ?thesis by simp
qed

text \<open>
  C7, as stated, fails: the flag is tested at the head of a pass only.  A click on Stop
  that falls while \<^verbatim>\<open>detect_emotion\<close> is at work clears the flag and finds the history
  empty; the pass then appends its label to the history of an inactive session.
\<close>

theorem appended_only_while_active_counterexample:
  "pass_head stub_vision (True, ''sad'') (start_detection EmotionDetectionApp_init) = Some (Some ''sad'') \<and>
   \<not> detection_active (snd (stop_detection id stub_format_2f (start_detection EmotionDetectionApp_init))) \<and>
   emotion_history (detector
     (snd (stop_detection id stub_format_2f (start_detection EmotionDetectionApp_init)))) = [] \<and>
   emotion_history (detector (pass_tail (Some ''sad'') 1
     (snd (stop_detection id stub_format_2f (start_detection EmotionDetectionApp_init))))) = [''sad''] \<and>
   \<not> detection_active (application stopped_mid_pass) \<and>
   emotion_history (detector (application stopped_mid_pass)) = [] \<and>
   emotion_history (detector (application
     (act stub_vision id stub_format_2f (Loop_tail 0 1) stopped_mid_pass))) = [''sad''] \<and>
   \<not> detection_active (application
     (act stub_vision id stub_format_2f (Loop_tail 0 1) stopped_mid_pass))"
  by (simp add: stopped_mid_pass_eq EmotionDetectionApp_init_def EmotionDetector_init_def
      start_detection_def reset_emotion_history_def pass_head_def detect_stub stop_detection_def
      Let_def stats_empty_history pass_tail_def record_observation_def deque_append_def)

text \<open>
  C7, amended.  The history is appended to only by passes whose test of the flag found
  the session active.  A pass that begins while the session is inactive ends the loop
  and leaves the application as it is, in every state reached from the initial one; with
  the session inactive and no pass in flight, heads and tails of passes change nothing,
  so from the initial state the history stays at length 0.  A pass comes in flight only
  while the session is active, and the history changes only by the Start that empties it
  or by the tail of a pass in flight, which appends its label whatever the flag is by
  then.
\<close>

theorem history_appended_by_passes_begun_active:
  "(\<not> detection_active app \<longrightarrow>
      pass_head cv rd app = None \<and> run_detection cv captures app = app) \<and>
   (pass_head cv rd app = Some l \<longrightarrow> detection_active app) \<and>
   pass_tail l now (app\<lparr>detection_active := False\<rparr>) =
     (pass_tail l now app)\<lparr>detection_active := False\<rparr> \<and>
   (length (in_flight s) < length (in_flight (act cv fl format_2f a s)) \<longrightarrow>
      detection_active (application s) \<and> (\<exists>rd'. a = Loop_head rd')) \<and>
   (emotion_history (detector (application (act cv fl format_2f a s))) \<noteq>
    emotion_history (detector (application s)) \<longrightarrow>
      (a = Press_start \<and> \<not> detection_active (application s) \<and>
       emotion_history (detector (application (act cv fl format_2f a s))) = []) \<or>
      (\<exists>i t e. a = Loop_tail i t \<and> i < length (in_flight s) \<and> in_flight s ! i = Some e \<and>
         e \<noteq> [] \<and>
         emotion_history (detector (application (act cv fl format_2f a s))) =
           deque_append 100 (emotion_history (detector (application s))) e)) \<and>
   (\<not> detection_active (application s) \<and> in_flight s = [] \<and> (\<forall>a'\<in>set actions. loop_action a') \<longrightarrow>
      run_actions cv fl format_2f actions s = s) \<and>
   (\<not> detection_active (application (run_actions cv fl format_2f actions threaded_init)) \<longrightarrow>
      act cv fl format_2f (Loop_head rd) (run_actions cv fl format_2f actions threaded_init) =
        run_actions cv fl format_2f actions threaded_init) \<and>
   ((\<forall>a'\<in>set actions. loop_action a') \<longrightarrow>
      length (emotion_history (detector (application
        (run_actions cv fl format_2f actions threaded_init)))) = 0)"
proof (intro conjI impI)
  assume inactive: "\<not> detection_active app"
  show "pass_head cv rd app = None"
    using inactive by (rule pass_head_inactive)
  show "run_detection cv captures app = app"
    using inactive by (rule run_detection_inactive)
next
  assume "pass_head cv rd app = Some l"
  then show "detection_active app" by (rule pass_head_Some_active)
next
  show "pass_tail l now (app\<lparr>detection_active := False\<rparr>) =
      (pass_tail l now app)\<lparr>detection_active := False\<rparr>"
    by (rule pass_tail_flag)
next
  assume grows: "length (in_flight s) < length (in_flight (act cv fl format_2f a s))"
  show "detection_active (application s)" and "\<exists>rd'. a = Loop_head rd'"
    using in_flight_grows [OF grows] by simp_all
next
  assume "emotion_history (detector (application (act cv fl format_2f a s))) \<noteq>
    emotion_history (detector (application s))"
  then show "(a = Press_start \<and> \<not> detection_active (application s) \<and>
       emotion_history (detector (application (act cv fl format_2f a s))) = []) \<or>
      (\<exists>i t e. a = Loop_tail i t \<and> i < length (in_flight s) \<and> in_flight s ! i = Some e \<and>
         e \<noteq> [] \<and>
         emotion_history (detector (application (act cv fl format_2f a s))) =
           deque_append 100 (emotion_history (detector (application s))) e)"
    by (rule history_changed_by)
next
  assume "\<not> detection_active (application s) \<and> in_flight s = [] \<and>
    (\<forall>a'\<in>set actions. loop_action a')"
  then show "run_actions cv fl format_2f actions s = s"
    by (intro run_actions_loop_idle) simp_all
next
  assume "\<not> detection_active (application (run_actions cv fl format_2f actions threaded_init))"
  then show "act cv fl format_2f (Loop_head rd) (run_actions cv fl format_2f actions threaded_init) =
      run_actions cv fl format_2f actions threaded_init"
    by (simp add: pass_head_inactive)
next
  assume loops: "\<forall>a'\<in>set actions. loop_action a'"
  have "\<not> detection_active (application threaded_init)" and "in_flight threaded_init = []"
    by (simp_all add: threaded_init_def EmotionDetectionApp_init_def)
  then have "run_actions cv fl format_2f actions threaded_init = threaded_init"
    using loops by (rule run_actions_loop_idle)
  then show "length (emotion_history (detector (application
      (run_actions cv fl format_2f actions threaded_init)))) = 0"
    by (simp add: threaded_init_def EmotionDetectionApp_init_def EmotionDetector_init_def)
qed

theorem history_appended_by_passes_begun_active_witness:
  "pass_head stub_vision (True, ''sad'') EmotionDetectionApp_init = None \<and>
   run_detection stub_vision [((True, ''sad''), 1)] EmotionDetectionApp_init = EmotionDetectionApp_init \<and>
   detection_active session_in_progress \<and>
   pass_head stub_vision (True, ''happy'') session_in_progress = Some (Some ''happy'') \<and>
   in_flight stopped_mid_pass ! 0 = Some ''sad'' \<and>
   emotion_history (detector (application
     (act stub_vision id stub_format_2f (Loop_tail 0 1) stopped_mid_pass))) = [''sad''] \<and>
   run_actions stub_vision id stub_format_2f [Loop_head (True, ''sad''), Loop_tail 0 1] threaded_init =
     threaded_init \<and>
   act stub_vision id stub_format_2f (Loop_head (True, ''happy''))
     (act stub_vision id stub_format_2f (Loop_tail 0 1) stopped_mid_pass) =
   act stub_vision id stub_format_2f (Loop_tail 0 1) stopped_mid_pass"
proof -
  let ?fin = "act stub_vision id stub_format_2f (Loop_tail 0 1) stopped_mid_pass"
  have inactive: "\<not> detection_active EmotionDetectionApp_init"
    by (simp add: EmotionDetectionApp_init_def)
  have head: "pass_head stub_vision (True, ''happy'') session_in_progress = Some (Some ''happy'')"
    by (simp add: pass_head_def session_in_progress_eq detect_stub)
  have fin: "emotion_history (detector (application ?fin)) = [''sad'']"
    by (simp add: stopped_mid_pass_eq pass_tail_def record_observation_def deque_append_def)
  have before: "emotion_history (detector (application stopped_mid_pass)) = []"
    by (simp add: stopped_mid_pass_eq)
  have idle: "\<not> detection_active (application threaded_init) \<and> in_flight threaded_init = [] \<and>
      (\<forall>a'\<in>set [Loop_head (True, ''sad''), Loop_tail 0 1]. loop_action a')"
    by (simp add: threaded_init_def EmotionDetectionApp_init_def)
  have reach: "?fin = run_actions stub_vision id stub_format_2f
      [Press_start, Loop_head (True, ''sad''), Press_stop, Loop_tail 0 1] threaded_init"
    by (simp add: stopped_mid_pass_def run_actions_def)
  have off: "\<not> detection_active (application ?fin)"
    by (simp add: stopped_mid_pass_eq pass_tail_def)
  from history_appended_by_passes_begun_active [where app = EmotionDetectionApp_init
      and cv = stub_vision and rd = "(True, ''sad'')" and captures = "[((True, ''sad''), 1)]"] inactive
  have 1: "pass_head stub_vision (True, ''sad'') EmotionDetectionApp_init = None"
    and 2: "run_detection stub_vision [((True, ''sad''), 1)] EmotionDetectionApp_init =
      EmotionDetectionApp_init"
    by blast+
  from history_appended_by_passes_begun_active [where app = session_in_progress
      and cv = stub_vision and rd = "(True, ''happy'')" and l = "Some ''happy''"] head
  have 3: "detection_active session_in_progress"
    by blast
  from history_appended_by_passes_begun_active [where s = stopped_mid_pass
      and cv = stub_vision and fl = id and format_2f = stub_format_2f and a = "Loop_tail 0 1"]
    fin before
  have "\<exists>i t e. Loop_tail 0 1 = (Loop_tail i t :: string action) \<and> i < length (in_flight stopped_mid_pass) \<and>
      in_flight stopped_mid_pass ! i = Some e \<and> e \<noteq> [] \<and>
      emotion_history (detector (application ?fin)) =
        deque_append 100 (emotion_history (detector (application stopped_mid_pass))) e"
    by simp
  then have 4: "in_flight stopped_mid_pass ! 0 = Some ''sad''"
    using fin before by (auto simp: deque_append_def)
  from history_appended_by_passes_begun_active [where s = threaded_init
      and cv = stub_vision and fl = id and format_2f = stub_format_2f
      and actions = "[Loop_head (True, ''sad''), Loop_tail 0 1]"] idle
  have 5: "run_actions stub_vision id stub_format_2f [Loop_head (True, ''sad''), Loop_tail 0 1]
      threaded_init = threaded_init"
    by blast
  from history_appended_by_passes_begun_active [where cv = stub_vision and fl = id
      and format_2f = stub_format_2f and rd = "(True, ''happy'')"
      and actions = "[Press_start, Loop_head (True, ''sad''), Press_stop, Loop_tail 0 1]"]
    off reach
  have 6: "act stub_vision id stub_format_2f (Loop_head (True, ''happy'')) ?fin = ?fin"
    by simp
  from 1 2 3 head 4 fin 5 6 show ?thesis by blast
qed

text \<open>
  C9. The two deques stay equally long: \<^verbatim>\<open>reset_emotion_history\<close> empties both, the two
  appends of a recorded observation keep equal lengths equal (also at capacity, where
  each drops one entry), hence so does every event and every sequence of events, and the
  lengths are equal in every state reached from the initial one.
\<close>

theorem history_and_timestamps_parallel:
  "length (emotion_history (reset_emotion_history d)) =
     length (emotion_timestamps (reset_emotion_history d)) \<and>
   (length (emotion_history d) = length (emotion_timestamps d) \<longrightarrow>
      length (emotion_history (record_observation d e now)) =
        length (emotion_timestamps (record_observation d e now))) \<and>
   (length (emotion_history (detector app)) = length (emotion_timestamps (detector app)) \<longrightarrow>
      length (emotion_history (detector (apply_event cv fl format_2f ev app))) =
        length (emotion_timestamps (detector (apply_event cv fl format_2f ev app))) \<and>
      length (emotion_history (detector (exec cv fl format_2f events app))) =
        length (emotion_timestamps (detector (exec cv fl format_2f events app)))) \<and>
   length (emotion_history (detector (exec cv fl format_2f events EmotionDetectionApp_init))) =
     length (emotion_timestamps (detector (exec cv fl format_2f events EmotionDetectionApp_init)))"
proof (intro conjI impI)
  show "length (emotion_history (reset_emotion_history d)) =
      length (emotion_timestamps (reset_emotion_history d))"
    by (simp add: reset_emotion_history_def)
  show "length (emotion_history (detector (exec cv fl format_2f events EmotionDetectionApp_init))) =
      length (emotion_timestamps (detector (exec cv fl format_2f events EmotionDetectionApp_init)))"
    by (rule exec_parallel) (simp add: EmotionDetectionApp_init_def EmotionDetector_init_def)
qed (simp_all add: record_observation_parallel apply_event_parallel exec_parallel)

theorem history_and_timestamps_parallel_witness:
  "length (emotion_history (record_observation (detector full_app) ''happy'' 7)) = 100 \<and>
   length (emotion_timestamps (record_observation (detector full_app) ''happy'' 7)) = 100 \<and>
   length (emotion_history (detector (exec stub_vision id stub_format_2f
     [Start, Run [((True, ''sad''), 1), ((True, ''happy''), 2)], Stop, Start] session_in_progress))) =
   length (emotion_timestamps (detector (exec stub_vision id stub_format_2f
     [Start, Run [((True, ''sad''), 1), ((True, ''happy''), 2)], Stop, Start] session_in_progress)))"
proof -
  have full: "length (emotion_history (detector full_app)) = length (emotion_timestamps (detector full_app))"
    by (simp add: full_app_def)
  have hist: "length (emotion_history (record_observation (detector full_app) ''happy'' 7)) = 100"
    by (simp add: full_app_def record_observation_def deque_append_length_eq)
  have prog: "length (emotion_history (detector session_in_progress)) =
      length (emotion_timestamps (detector session_in_progress))"
    by (simp add: session_in_progress_eq)
  from history_and_timestamps_parallel [where d = "detector full_app" and e = "''happy''"
      and now = 7] full
  have "length (emotion_history (record_observation (detector full_app) ''happy'' 7)) =
      length (emotion_timestamps (record_observation (detector full_app) ''happy'' 7))"
    by blast
  with hist
  have 1: "length (emotion_timestamps (record_observation (detector full_app) ''happy'' 7)) = 100"
    by simp
  from history_and_timestamps_parallel [where app = session_in_progress and cv = stub_vision
      and fl = id and format_2f = stub_format_2f
      and events = "[Start, Run [((True, ''sad''), 1), ((True, ''happy''), 2)], Stop, Start]"] prog
  have 2: "length (emotion_history (detector (exec stub_vision id stub_format_2f
     [Start, Run [((True, ''sad''), 1), ((True, ''happy''), 2)], Stop, Start] session_in_progress))) =
   length (emotion_timestamps (detector (exec stub_vision id stub_format_2f
     [Start, Run [((True, ''sad''), 1), ((True, ''happy''), 2)], Stop, Start] session_in_progress)))"
    by blast
  from hist 1 2 show ?thesis by blast
qed

end
